theory Spec2Isabelle
  imports Complex_Main
begin

section \<open>Conditioning encoders of \<^verbatim>\<open>ldm_seg/modules/encoders/modules.py\<close>\<close>

text \<open>
  The module is adapter code over torch, transformers, clip, kornia and einops. The
  embedding keeps every class of the module as a record of the attributes its
  constructor assigns and every method as a function on that record. Attribute access,
  \<open>.to(device)\<close>, arithmetic with a number, and the bookkeeping of \<open>torch.nn.Module\<close>
  (training flag, parameters, buffers, \<open>state_dict\<close>) are computed on the tensor and
  module types below. Every call into a pretrained model, a tokenizer, a resampling or
  a random function is a function parameter that receives the arguments the source
  passes, positional and keyword. What a library documents for those arguments is
  written as a predicate on the parameter (\<open>..._spec\<close>); a theorem assumes such a
  predicate only where its statement depends on it, and each predicate comes with a
  concrete function that meets it.
\<close>

subsection \<open>Errors, tensors\<close>

text \<open>Python exceptions that the modelled code paths can raise, as values.\<close>

datatype error =
    AssertionError
  | RuntimeError
  | TypeError
  | ValueError
  | IndexError
  | KeyError
  | AttributeError
  | EinopsError

text \<open>
  A tensor is its shape, its elements in row-major order and the device it lives on.
  \<open>x.to(device)\<close> only changes the last component.
\<close>

datatype 'a tensor = Tensor (shape: "nat list") (data: "'a list") (dev: string)

definition ndim :: "'a tensor \<Rightarrow> nat" where
  "ndim x = length (shape x)"

definition to :: "'a tensor \<Rightarrow> string \<Rightarrow> 'a tensor" where
  "to x d = Tensor (shape x) (data x) d"

subsection \<open>Module state of torch\<close>

text \<open>
  The part of \<open>torch.nn.Module\<close> that \<open>freeze\<close>, the constructors and
  \<open>register_buffer\<close> touch: a module has a training flag, registered parameters (each
  with its \<open>requires_grad\<close> flag), registered buffers (each persistent or not) and
  registered submodules, by name and in registration order.
\<close>

datatype Parameter = Parameter (param_data: "real tensor") (requires_grad: bool)

datatype Buffer = Buffer (buffer_data: "real tensor") (persistent: bool)

datatype nn_module =
  Module (training: bool)
         (own_parameters: "(string \<times> Parameter) list")
         (own_buffers: "(string \<times> Buffer) list")
         (submodules: "(string \<times> nn_module) list")

text \<open>\<open>module.eval()\<close>: clears the training flag of the module and of every submodule.\<close>

primrec eval_mode :: "nn_module \<Rightarrow> nn_module" where
  "eval_mode (Module t ps bs ms) = Module False ps bs (map (map_prod id eval_mode) ms)"

text \<open>\<open>module.parameters()\<close>: the module's own parameters, then those of its submodules.\<close>

primrec parameters :: "nn_module \<Rightarrow> Parameter list" where
  "parameters (Module t ps bs ms) = map snd ps @ concat (map snd (map (map_prod id parameters) ms))"

text \<open>
  The loop \<open>for param in module.parameters(): param.requires_grad = False\<close> assigns to
  every parameter object reachable from the module; on the tree it clears the flag at
  every parameter and changes nothing else.
\<close>

primrec no_grad_parameters :: "nn_module \<Rightarrow> nn_module" where
  "no_grad_parameters (Module t ps bs ms) =
     Module t (map (map_prod id (\<lambda>p. Parameter (param_data p) False)) ps) bs
       (map (map_prod id no_grad_parameters) ms)"

text \<open>
  The keys of \<open>module.state_dict()\<close>: the names of the parameters and of the persistent
  buffers, those of a submodule prefixed by its name and a dot. A buffer registered with
  \<open>persistent=False\<close> has no key.
\<close>

primrec state_dict_keys :: "nn_module \<Rightarrow> string list" where
  "state_dict_keys (Module t ps bs ms) =
     map fst ps @ map fst (filter (\<lambda>nb. persistent (snd nb)) bs)
       @ concat (map (\<lambda>nm. map (\<lambda>k. fst nm @ ''.'' @ k) (snd nm))
                   (map (map_prod id state_dict_keys) ms))"

text \<open>Whether every module of the tree is in evaluation mode.\<close>

primrec all_eval :: "nn_module \<Rightarrow> bool" where
  "all_eval (Module t ps bs ms) \<longleftrightarrow> \<not> t \<and> list_all snd (map (map_prod id all_eval) ms)"

text \<open>An instance: a module in training mode with one trainable weight and a submodule
  that holds a trainable and a fixed parameter and a non-persistent buffer.\<close>

definition two_layer_module :: nn_module where
  "two_layer_module =
     Module True
       [(''weight'', Parameter (Tensor [2] [1, 2] ''cpu'') True)]
       []
       [(''layer'',
         Module True
           [(''weight'', Parameter (Tensor [1] [3] ''cpu'') True),
            (''bias'', Parameter (Tensor [1] [0] ''cpu'') False)]
           [(''scale'', Buffer (Tensor [1] [1] ''cpu'') False)]
           [])]"

subsection \<open>Tokenizers of transformers\<close>

text \<open>
  The keyword arguments of a tokenizer call that the module uses, with the library's
  defaults. \<open>padding\<close> is \<open>False\<close> (no padding), \<open>"longest"\<close> or \<open>"max_length"\<close>.
\<close>

datatype padding_strategy = DoNotPad | Longest | MaxLength

record tokenizer_kwargs =
  truncation :: bool
  max_length :: "int option"
  return_length :: bool
  return_overflowing_tokens :: bool
  padding :: padding_strategy
  return_tensors :: "string option"

definition tokenizer_defaults :: tokenizer_kwargs where
  "tokenizer_defaults =
     \<lparr> truncation = False, max_length = None, return_length = False,
       return_overflowing_tokens = False, padding = DoNotPad, return_tensors = None \<rparr>"

text \<open>
  A tokenizer object is called with a batch of strings and keyword arguments and returns
  a \<open>BatchEncoding\<close>, a dictionary from field names to integer tensors, or raises.
\<close>

type_synonym batch_encoding = "string \<rightharpoonup> int tensor"

type_synonym hf_tokenizer = "string list \<Rightarrow> tokenizer_kwargs \<Rightarrow> error + batch_encoding"

text \<open>\<open>d[key]\<close> on a dictionary: a missing key raises \<open>KeyError\<close>.\<close>

definition getitem :: "('k \<rightharpoonup> 'v) \<Rightarrow> 'k \<Rightarrow> error + 'v" where
  "getitem d k = (case d k of None \<Rightarrow> Inl KeyError | Some v \<Rightarrow> Inr v)"

text \<open>
  What transformers documents for a call with \<open>truncation=True\<close>,
  \<open>padding="max_length"\<close>, \<open>max_length=n\<close> and \<open>return_tensors="pt"\<close> on a non-empty
  batch: \<open>input_ids\<close> is a tensor of shape \<open>(B, n)\<close>; the row of a string holds its
  tokens, cut down to \<open>n\<close> if there are more, and then the padding token id up to length
  \<open>n\<close>. \<open>ntokens s\<close> is the number of tokens of \<open>s\<close> (special tokens included), \<open>pad\<close> the
  padding token id, \<open>vocab\<close> the size of the vocabulary, and \<open>lo\<close> the least \<open>n\<close> for
  which the tokenizer accepts the call (the number of special tokens it adds).
\<close>

definition padded_row :: "int \<Rightarrow> nat \<Rightarrow> int list \<Rightarrow> int list" where
  "padded_row pad n ts = ts @ replicate (n - length ts) pad"

definition max_length_padding_spec ::
  "hf_tokenizer \<Rightarrow> (string \<Rightarrow> nat) \<Rightarrow> int \<Rightarrow> nat \<Rightarrow> nat \<Rightarrow> bool" where
  "max_length_padding_spec tok ntokens pad vocab lo \<longleftrightarrow>
     0 \<le> pad \<and> pad < int vocab \<and>
     (\<forall>text kw n.
        truncation kw \<and> padding kw = MaxLength \<and> max_length kw = Some (int n) \<and>
        return_tensors kw = Some ''pt'' \<and> lo \<le> n \<and> text \<noteq> [] \<longrightarrow>
        (\<exists>enc toks d.
           tok text kw = Inr enc \<and>
           enc ''input_ids'' =
             Some (Tensor [length text, n] (concat (map (\<lambda>s. padded_row pad n (toks s)) text)) d) \<and>
           (\<forall>s. length (toks s) = min n (ntokens s) \<and>
                (\<forall>t \<in> set (toks s). 0 \<le> t \<and> t < int vocab))))"

text \<open>
  What transformers documents for a call with only \<open>return_tensors="pt"\<close> (no
  truncation, no padding) on a non-empty batch of strings that all have \<open>L\<close> tokens:
  \<open>input_ids\<close> has shape \<open>(B, L)\<close>, whatever \<open>L\<close> is.
\<close>

definition unpadded_spec :: "hf_tokenizer \<Rightarrow> (string \<Rightarrow> nat) \<Rightarrow> bool" where
  "unpadded_spec tok ntokens \<longleftrightarrow>
     (\<forall>text kw l.
        \<not> truncation kw \<and> padding kw = DoNotPad \<and> return_tensors kw = Some ''pt'' \<and>
        text \<noteq> [] \<and> (\<forall>s \<in> set text. ntokens s = l) \<longrightarrow>
        (\<exists>enc xs d. tok text kw = Inr enc \<and>
           enc ''input_ids'' = Some (Tensor [length text, l] xs d) \<and>
           length xs = length text * l))"

text \<open>
  A small tokenizer that follows these rules, as an instance: one token per character
  (its code), \<open>101\<close> in front and \<open>102\<close> behind as special tokens, padding id \<open>0\<close>.
  Truncation keeps the final special token. Without padding, rows of different length
  cannot form a tensor.
\<close>

definition char_tokens :: "string \<Rightarrow> int list" where
  "char_tokens s = 101 # map (\<lambda>c. int (of_char c)) s @ [102]"

definition char_truncate :: "nat \<Rightarrow> int list \<Rightarrow> int list" where
  "char_truncate n ts = (if length ts \<le> n then ts else take (n - 1) ts @ [102])"

definition char_row :: "tokenizer_kwargs \<Rightarrow> string \<Rightarrow> int list" where
  "char_row kw s =
     (let ts = char_tokens s;
          ts = (case (truncation kw, max_length kw) of
                  (True, Some n) \<Rightarrow> char_truncate (nat n) ts
                | _ \<Rightarrow> ts)
      in case (padding kw, max_length kw) of
           (MaxLength, Some n) \<Rightarrow> padded_row 0 (nat n) ts
         | _ \<Rightarrow> ts)"

definition char_tokenizer :: hf_tokenizer where
  "char_tokenizer text kw =
     (let rows = map (char_row kw) text;
          rows = (if padding kw = Longest
                  then map (padded_row 0 (Max (set (map length rows)))) rows
                  else rows)
      in if text = [] then Inl IndexError
         else if (case (truncation kw, max_length kw) of (True, Some n) \<Rightarrow> n < 2 | _ \<Rightarrow> False)
         then Inl RuntimeError
         else if return_tensors kw = Some ''pt'' \<and> (\<exists>r \<in> set rows. length r \<noteq> length (hd rows))
         then Inl ValueError
         else Inr [''input_ids'' \<mapsto> Tensor [length rows, length (hd rows)] (concat rows) ''cpu''])"

subsection \<open>SpatialRescaler\<close>

text \<open>\<open>nn.Conv2d(in_channels, out_channels, kernel_size, bias=bias)\<close>: the layer's configuration.\<close>

datatype Conv2d = Conv2d (in_channels: nat) (out_channels: nat) (kernel_size: nat) (bias: bool)

record SpatialRescaler =
  n_stages :: int
  multiplier :: real
  interpolator_mode :: string
  remap_output :: bool
  channel_mapper :: "Conv2d option"

definition interpolation_methods :: "string list" where
  "interpolation_methods =
     [''nearest'', ''linear'', ''bilinear'', ''trilinear'', ''bicubic'', ''area'']"

text \<open>
  \<open>SpatialRescaler.__init__(n_stages=1, method="bilinear", multiplier=0.5, in_channels=3,
  out_channels=None, bias=False)\<close>. The two \<open>assert\<close> statements come first;
  \<open>self.interpolator = partial(interpolate, mode=method)\<close> is kept as the mode it fixes.
\<close>

definition SpatialRescaler_init ::
  "int \<Rightarrow> string \<Rightarrow> real \<Rightarrow> nat \<Rightarrow> nat option \<Rightarrow> bool \<Rightarrow> error + SpatialRescaler" where
  "SpatialRescaler_init n_stages' method multiplier' in_channels' out_channels' bias' =
     (if \<not> n_stages' \<ge> 0 then Inl AssertionError
      else if \<not> method \<in> set interpolation_methods then Inl AssertionError
      else Inr \<lparr> n_stages = n_stages',
                 multiplier = multiplier',
                 interpolator_mode = method,
                 remap_output = (out_channels' \<noteq> None),
                 channel_mapper =
                   (case out_channels' of
                      None \<Rightarrow> None
                    | Some oc \<Rightarrow> Some (Conv2d in_channels' oc 1 bias')) \<rparr>)"

text \<open>
  The loop \<open>for stage in range(self.n_stages): x = self.interpolator(x,
  scale_factor=self.multiplier)\<close>, by recursion on the number of stages left. The
  parameter \<open>interpolate\<close> stands for \<open>torch.nn.functional.interpolate\<close> and receives
  the input, \<open>scale_factor\<close> and \<open>mode\<close>; an exception it raises ends the loop.
\<close>

fun interpolate_stages ::
  "(real tensor \<Rightarrow> real \<Rightarrow> string \<Rightarrow> error + real tensor) \<Rightarrow> SpatialRescaler \<Rightarrow>
     nat \<Rightarrow> real tensor \<Rightarrow> error + real tensor" where
  "interpolate_stages interpolate m 0 x = Inr x"
| "interpolate_stages interpolate m (Suc k) x =
     (case interpolate x (multiplier m) (interpolator_mode m) of
        Inl e \<Rightarrow> Inl e
      | Inr x' \<Rightarrow> interpolate_stages interpolate m k x')"

text \<open>
  \<open>SpatialRescaler.forward\<close>. \<open>range(n)\<close> is empty for \<open>n \<le> 0\<close>, as \<open>nat n\<close> is \<open>0\<close>.
  \<open>conv2d\<close> stands for applying an \<open>nn.Conv2d\<close> layer; \<open>self.channel_mapper\<close> exists
  exactly when \<open>self.remap_output\<close> holds, and reading a missing attribute raises.
\<close>

definition SpatialRescaler_forward ::
  "(real tensor \<Rightarrow> real \<Rightarrow> string \<Rightarrow> error + real tensor) \<Rightarrow>
   (Conv2d \<Rightarrow> real tensor \<Rightarrow> error + real tensor) \<Rightarrow>
   SpatialRescaler \<Rightarrow> real tensor \<Rightarrow> error + real tensor" where
  "SpatialRescaler_forward interpolate conv2d m x =
     (case interpolate_stages interpolate m (nat (n_stages m)) x of
        Inl e \<Rightarrow> Inl e
      | Inr x' \<Rightarrow>
          if remap_output m
          then (case channel_mapper m of
                  None \<Rightarrow> Inl AttributeError
                | Some conv \<Rightarrow> conv2d conv x')
          else Inr x')"

definition SpatialRescaler_encode ::
  "(real tensor \<Rightarrow> real \<Rightarrow> string \<Rightarrow> error + real tensor) \<Rightarrow>
   (Conv2d \<Rightarrow> real tensor \<Rightarrow> error + real tensor) \<Rightarrow>
   SpatialRescaler \<Rightarrow> real tensor \<Rightarrow> error + real tensor" where
  "SpatialRescaler_encode interpolate conv2d m x = SpatialRescaler_forward interpolate conv2d m x"

text \<open>
  One pass of the loop body on the result so far: nothing more runs once an exception
  was raised. The loop is compared with the iteration of this pass below.
\<close>

definition interpolate_pass ::
  "(real tensor \<Rightarrow> real \<Rightarrow> string \<Rightarrow> error + real tensor) \<Rightarrow> SpatialRescaler \<Rightarrow>
     error + real tensor \<Rightarrow> error + real tensor" where
  "interpolate_pass interpolate m r =
     (case r of Inl e \<Rightarrow> Inl e | Inr x \<Rightarrow> interpolate x (multiplier m) (interpolator_mode m))"

text \<open>
  An interpolation function that refuses every mode outside the constructor's list
  before it does anything else. Running the module with it in place of \<open>interpolate\<close>
  shows whether the loop ever passes another mode.
\<close>

definition mode_checked ::
  "(real tensor \<Rightarrow> real \<Rightarrow> string \<Rightarrow> error + real tensor) \<Rightarrow>
     real tensor \<Rightarrow> real \<Rightarrow> string \<Rightarrow> error + real tensor" where
  "mode_checked interpolate x s mode =
     (if mode \<in> set interpolation_methods then interpolate x s mode else Inl ValueError)"

text \<open>
  What torch documents for \<open>interpolate\<close> on a four-dimensional input with a scalar
  \<open>scale_factor\<close>: with one of the modes defined for such inputs, and both output sizes
  positive, the call returns a tensor on the same device whose batch and channel sizes
  are those of the input and whose spatial sizes are \<open>\<lfloor>size * scale_factor\<rfloor>\<close>.
\<close>

definition spatial_modes :: "string list" where
  "spatial_modes = [''nearest'', ''bilinear'', ''bicubic'', ''area'']"

definition scaled_size :: "nat \<Rightarrow> real \<Rightarrow> nat" where
  "scaled_size n s = nat \<lfloor>real n * s\<rfloor>"

definition interpolate_spec ::
  "(real tensor \<Rightarrow> real \<Rightarrow> string \<Rightarrow> error + real tensor) \<Rightarrow> bool" where
  "interpolate_spec interpolate \<longleftrightarrow>
     (\<forall>b c h w xs d s mode.
        mode \<in> set spatial_modes \<and> 0 < scaled_size h s \<and> 0 < scaled_size w s \<longrightarrow>
        (\<exists>ys. interpolate (Tensor [b, c, h, w] xs d) s mode =
                Inr (Tensor [b, c, scaled_size h s, scaled_size w s] ys d)))"

text \<open>
  What torch documents for a convolution with kernel size 1 (stride 1, no padding): an
  input with the layer's number of input channels keeps its batch and spatial sizes and
  gets the layer's number of output channels.
\<close>

definition conv2d_spec :: "(Conv2d \<Rightarrow> real tensor \<Rightarrow> error + real tensor) \<Rightarrow> bool" where
  "conv2d_spec conv2d \<longleftrightarrow>
     (\<forall>ci co bi b h w xs d.
        \<exists>ys. conv2d (Conv2d ci co 1 bi) (Tensor [b, ci, h, w] xs d) =
               Inr (Tensor [b, co, h, w] ys d))"

text \<open>
  A nearest-neighbour resampler and a \<open>1 \<times> 1\<close> convolution with all weights \<open>1\<close>, as
  concrete functions meeting the two descriptions; they serve as instances.
\<close>

definition nearest_interpolate :: "real tensor \<Rightarrow> real \<Rightarrow> string \<Rightarrow> error + real tensor" where
  "nearest_interpolate x s mode =
     (case shape x of
        [b, c, h, w] \<Rightarrow>
          if \<not> mode \<in> set spatial_modes then Inl RuntimeError
          else if scaled_size h s = 0 \<or> scaled_size w s = 0 then Inl RuntimeError
          else Inr (Tensor [b, c, scaled_size h s, scaled_size w s]
                  (concat (map (\<lambda>p.
                     concat (map (\<lambda>i.
                       map (\<lambda>j. data x ! ((p * h + min (h - 1) (nat \<lfloor>real i / s\<rfloor>)) * w
                                              + min (w - 1) (nat \<lfloor>real j / s\<rfloor>)))
                         [0..<scaled_size w s])
                       [0..<scaled_size h s]))
                     [0..<b * c]))
                  (dev x))
      | _ \<Rightarrow> Inl RuntimeError)"

definition ones_conv2d :: "Conv2d \<Rightarrow> real tensor \<Rightarrow> error + real tensor" where
  "ones_conv2d conv x =
     (case shape x of
        [b, c, h, w] \<Rightarrow>
          if c \<noteq> in_channels conv \<or> kernel_size conv \<noteq> 1 then Inl RuntimeError
          else Inr (Tensor [b, out_channels conv, h, w]
                  (concat (map (\<lambda>bi.
                     concat (map (\<lambda>oc.
                       map (\<lambda>p. (\<Sum>ci\<leftarrow>[0..<c]. data x ! ((bi * c + ci) * (h * w) + p))
                                  + (if bias conv then 1 else 0))
                         [0..<h * w])
                       [0..<out_channels conv]))
                     [0..<b]))
                  (dev x))
      | _ \<Rightarrow> Inl RuntimeError)"

subsection \<open>BERTTokenizer\<close>

record BERTTokenizer =
  tokenizer :: hf_tokenizer
  device :: string
  vq_interface :: bool
  max_length :: int

text \<open>
  \<open>BERTTokenizer.__init__(device="cuda", vq_interface=True, max_length=77)\<close>.
  \<open>from_pretrained\<close> stands for \<open>BertTokenizerFast.from_pretrained\<close>, which loads a
  tokenizer by name or raises.
\<close>

definition BERTTokenizer_init ::
  "(string \<Rightarrow> error + hf_tokenizer) \<Rightarrow> string \<Rightarrow> bool \<Rightarrow> int \<Rightarrow> error + BERTTokenizer" where
  "BERTTokenizer_init from_pretrained device' vq_interface' max_length' =
     (case from_pretrained ''bert-base-uncased'' of
        Inl e \<Rightarrow> Inl e
      | Inr tk \<Rightarrow>
          Inr \<lparr> BERTTokenizer.tokenizer = tk,
                BERTTokenizer.device = device',
                BERTTokenizer.vq_interface = vq_interface',
                BERTTokenizer.max_length = max_length' \<rparr>)"

text \<open>\<open>BERTTokenizer.forward\<close>: the tokenizer call with its six keyword arguments, then
  \<open>batch_encoding["input_ids"].to(self.device)\<close>.\<close>

definition BERTTokenizer_forward :: "BERTTokenizer \<Rightarrow> string list \<Rightarrow> error + int tensor" where
  "BERTTokenizer_forward self text =
     (case BERTTokenizer.tokenizer self text
             \<lparr> truncation = True,
               tokenizer_kwargs.max_length = Some (BERTTokenizer.max_length self),
               return_length = True,
               return_overflowing_tokens = False,
               padding = MaxLength,
               return_tensors = Some ''pt'' \<rparr> of
        Inl e \<Rightarrow> Inl e
      | Inr batch_encoding \<Rightarrow>
          (case getitem batch_encoding ''input_ids'' of
             Inl e \<Rightarrow> Inl e
           | Inr input_ids \<Rightarrow> Inr (to input_ids (BERTTokenizer.device self))))"

text \<open>
  What \<open>encode\<close> returns: the token tensor, or the tuple \<open>(None, None, [None, None,
  tokens])\<close>; Python's \<open>None\<close> is \<open>None\<close> here. The decorator \<open>torch.no_grad()\<close> of
  \<open>encode\<close> has no effect on an integer tensor and is not modelled.
\<close>

datatype tokenizer_output =
    Tokens "int tensor"
  | Triple "int tensor option" "int tensor option" "int tensor option list"

definition BERTTokenizer_encode :: "BERTTokenizer \<Rightarrow> string list \<Rightarrow> error + tokenizer_output" where
  "BERTTokenizer_encode self text =
     (case BERTTokenizer_forward self text of
        Inl e \<Rightarrow> Inl e
      | Inr tokens \<Rightarrow>
          if \<not> BERTTokenizer.vq_interface self then Inr (Tokens tokens)
          else Inr (Triple None None [None, None, Some tokens]))"

definition BERTTokenizer_decode :: "BERTTokenizer \<Rightarrow> 'a \<Rightarrow> 'a" where
  "BERTTokenizer_decode self text = text"

subsection \<open>BERTEmbedder\<close>

text \<open>
  The arguments \<open>BERTEmbedder.__init__\<close> gives to \<open>Encoder(dim=n_embed, depth=n_layer)\<close>
  and to \<open>TransformerWrapper(num_tokens=vocab_size, max_seq_len=max_seq_len,
  attn_layers=..., emb_dropout=embedding_dropout)\<close>.
\<close>

datatype Encoder = Encoder (dim: int) (depth: int)

datatype TransformerWrapper =
  TransformerWrapper (num_tokens: int) (max_seq_len: int) (attn_layers: Encoder) (emb_dropout: real)

record BERTEmbedder =
  use_tknz_fn :: bool
  tknz_fn :: "BERTTokenizer option"
  device :: string
  transformer :: TransformerWrapper

text \<open>
  \<open>BERTEmbedder.__init__(n_embed, n_layer, vocab_size=30522, max_seq_len=77,
  device="cuda", use_tokenizer=True, embedding_dropout=0.0)\<close>. The tokenizer is built as
  \<open>BERTTokenizer(vq_interface=False, max_length=max_seq_len)\<close>, so with the default
  device \<open>"cuda"\<close>; \<open>self.tknz_fn\<close> is assigned only when \<open>use_tokenizer\<close> holds.
\<close>

definition BERTEmbedder_init ::
  "(string \<Rightarrow> error + hf_tokenizer) \<Rightarrow> int \<Rightarrow> int \<Rightarrow> int \<Rightarrow> int \<Rightarrow> string \<Rightarrow> bool \<Rightarrow> real \<Rightarrow>
     error + BERTEmbedder" where
  "BERTEmbedder_init from_pretrained n_embed n_layer vocab_size max_seq_len' device'
       use_tokenizer embedding_dropout =
     (case (if use_tokenizer
            then (case BERTTokenizer_init from_pretrained ''cuda'' False max_seq_len' of
                    Inl e \<Rightarrow> Inl e
                  | Inr t \<Rightarrow> Inr (Some t))
            else Inr None) of
        Inl e \<Rightarrow> Inl e
      | Inr tk \<Rightarrow>
          Inr \<lparr> use_tknz_fn = use_tokenizer,
                tknz_fn = tk,
                BERTEmbedder.device = device',
                BERTEmbedder.transformer =
                  TransformerWrapper vocab_size max_seq_len' (Encoder n_embed n_layer)
                    embedding_dropout \<rparr>)"

text \<open>
  The argument of \<open>forward\<close> is a batch of strings or, without the tokenizer, a tensor of
  token ids. A tokenizer raises on an input that is not text; so does the transformer on
  an input that is not a tensor.
\<close>

datatype text_input = Strings "string list" | TokenIds "int tensor"

text \<open>
  \<open>BERTEmbedder.forward\<close>. \<open>transformer_wrapper\<close> stands for calling the
  \<open>TransformerWrapper\<close> instance; it receives the instance's configuration, the tokens
  and \<open>return_embeddings\<close>.
\<close>

definition BERTEmbedder_forward ::
  "(TransformerWrapper \<Rightarrow> int tensor \<Rightarrow> bool \<Rightarrow> error + real tensor) \<Rightarrow>
     BERTEmbedder \<Rightarrow> text_input \<Rightarrow> error + real tensor" where
  "BERTEmbedder_forward transformer_wrapper self text =
     (case (if use_tknz_fn self
            then (case (tknz_fn self, text) of
                    (Some t, Strings ss) \<Rightarrow> BERTTokenizer_forward t ss
                  | (Some t, TokenIds _) \<Rightarrow> Inl ValueError
                  | (None, _) \<Rightarrow> Inl AttributeError)
            else (case text of
                    TokenIds tokens \<Rightarrow> Inr tokens
                  | Strings _ \<Rightarrow> Inl TypeError)) of
        Inl e \<Rightarrow> Inl e
      | Inr tokens \<Rightarrow> transformer_wrapper (BERTEmbedder.transformer self) tokens True)"

definition BERTEmbedder_encode ::
  "(TransformerWrapper \<Rightarrow> int tensor \<Rightarrow> bool \<Rightarrow> error + real tensor) \<Rightarrow>
     BERTEmbedder \<Rightarrow> text_input \<Rightarrow> error + real tensor" where
  "BERTEmbedder_encode transformer_wrapper self text =
     BERTEmbedder_forward transformer_wrapper self text"

text \<open>
  Modelled from the spec: \<open>TransformerWrapper\<close> of \<open>ldm_seg.modules.x_transformer\<close>,
  which is not among the sources. From section 4.1: tokens of shape \<open>(B, L)\<close> give
  per-position embeddings of shape \<open>(B, L, D)\<close>, \<open>D\<close> the embedding dimension, and the
  call fails if \<open>max_seq_len\<close> is exceeded. The token ids must be ids of the configured
  vocabulary.
\<close>

definition TransformerWrapper_spec ::
  "(TransformerWrapper \<Rightarrow> int tensor \<Rightarrow> bool \<Rightarrow> error + real tensor) \<Rightarrow> bool" where
  "TransformerWrapper_spec transformer_wrapper \<longleftrightarrow>
     (\<forall>cfg b l xs d.
        int l \<le> max_seq_len cfg \<and> 0 \<le> dim (attn_layers cfg) \<and>
        (\<forall>t \<in> set xs. 0 \<le> t \<and> t < num_tokens cfg) \<longrightarrow>
        (\<exists>ys. transformer_wrapper cfg (Tensor [b, l] xs d) True =
                Inr (Tensor [b, l, nat (dim (attn_layers cfg))] ys d)))"

text \<open>
  An embedding table without attention layers, as an instance: the vector of a token id
  repeats the id \<open>D\<close> times.
\<close>

definition table_wrapper :: "TransformerWrapper \<Rightarrow> int tensor \<Rightarrow> bool \<Rightarrow> error + real tensor" where
  "table_wrapper cfg tokens return_embeddings =
     (case shape tokens of
        [b, l] \<Rightarrow>
          if max_seq_len cfg < int l then Inl RuntimeError
          else if \<exists>t \<in> set (data tokens). t < 0 \<or> num_tokens cfg \<le> t then Inl IndexError
          else Inr (Tensor [b, l, nat (dim (attn_layers cfg))]
                  (concat (map (\<lambda>t. replicate (nat (dim (attn_layers cfg))) (real_of_int t))
                     (data tokens)))
                  (dev tokens))
      | _ \<Rightarrow> Inl RuntimeError)"

subsection \<open>FrozenCLIPEmbedder and FrozenT5Embedder\<close>

text \<open>
  The object a text model of transformers returns; \<open>outputs.last_hidden_state\<close> is the
  one attribute the module reads.
\<close>

record model_output =
  last_hidden_state :: "real tensor"

text \<open>
  Calling a pretrained text model on \<open>input_ids\<close>. The result depends on the module's
  state (weights, training flag) and on whether torch records gradients at the time of
  the call, so the parameter receives both.
\<close>

type_synonym text_model = "nn_module \<Rightarrow> bool \<Rightarrow> int tensor \<Rightarrow> error + model_output"

record FrozenCLIPEmbedder =
  tokenizer :: hf_tokenizer
  transformer :: nn_module
  device :: string
  max_length :: int

text \<open>
  \<open>FrozenCLIPEmbedder.freeze\<close>. The wrapper registers no parameter of its own and
  \<open>self.transformer\<close> is its only submodule, so \<open>self.parameters()\<close> are the parameters
  of \<open>self.transformer\<close>.
\<close>

definition FrozenCLIPEmbedder_freeze :: "FrozenCLIPEmbedder \<Rightarrow> FrozenCLIPEmbedder" where
  "FrozenCLIPEmbedder_freeze self =
     (let self = self\<lparr> FrozenCLIPEmbedder.transformer :=
                         eval_mode (FrozenCLIPEmbedder.transformer self) \<rparr>
      in self\<lparr> FrozenCLIPEmbedder.transformer :=
                  no_grad_parameters (FrozenCLIPEmbedder.transformer self) \<rparr>)"

text \<open>
  \<open>FrozenCLIPEmbedder.__init__(version="openai/clip-vit-large-patch14", device="cuda",
  max_length=77)\<close>; the two parameters stand for \<open>CLIPTokenizer.from_pretrained\<close> and
  \<open>CLIPTextModel.from_pretrained\<close>. The last statement is \<open>self.freeze()\<close>.
\<close>

definition FrozenCLIPEmbedder_init ::
  "(string \<Rightarrow> error + hf_tokenizer) \<Rightarrow> (string \<Rightarrow> error + nn_module) \<Rightarrow>
     string \<Rightarrow> string \<Rightarrow> int \<Rightarrow> error + FrozenCLIPEmbedder" where
  "FrozenCLIPEmbedder_init tokenizer_from_pretrained model_from_pretrained version device'
       max_length' =
     (case tokenizer_from_pretrained version of
        Inl e \<Rightarrow> Inl e
      | Inr tk \<Rightarrow>
          (case model_from_pretrained version of
             Inl e \<Rightarrow> Inl e
           | Inr tr \<Rightarrow>
               Inr (FrozenCLIPEmbedder_freeze
                      \<lparr> FrozenCLIPEmbedder.tokenizer = tk,
                        FrozenCLIPEmbedder.transformer = tr,
                        FrozenCLIPEmbedder.device = device',
                        FrozenCLIPEmbedder.max_length = max_length' \<rparr>)))"

text \<open>\<open>FrozenCLIPEmbedder.forward\<close>, run while torch's gradient mode is \<open>grad_enabled\<close>.\<close>

definition FrozenCLIPEmbedder_forward ::
  "text_model \<Rightarrow> FrozenCLIPEmbedder \<Rightarrow> bool \<Rightarrow> string list \<Rightarrow> error + real tensor" where
  "FrozenCLIPEmbedder_forward text_model self grad_enabled text =
     (case FrozenCLIPEmbedder.tokenizer self text
             \<lparr> truncation = True,
               tokenizer_kwargs.max_length = Some (FrozenCLIPEmbedder.max_length self),
               return_length = True,
               return_overflowing_tokens = False,
               padding = MaxLength,
               return_tensors = Some ''pt'' \<rparr> of
        Inl e \<Rightarrow> Inl e
      | Inr batch_encoding \<Rightarrow>
          (case getitem batch_encoding ''input_ids'' of
             Inl e \<Rightarrow> Inl e
           | Inr input_ids \<Rightarrow>
               (case text_model (FrozenCLIPEmbedder.transformer self) grad_enabled
                       (to input_ids (FrozenCLIPEmbedder.device self)) of
                  Inl e \<Rightarrow> Inl e
                | Inr outputs \<Rightarrow> Inr (last_hidden_state outputs))))"

definition FrozenCLIPEmbedder_encode ::
  "text_model \<Rightarrow> FrozenCLIPEmbedder \<Rightarrow> bool \<Rightarrow> string list \<Rightarrow> error + real tensor" where
  "FrozenCLIPEmbedder_encode text_model self grad_enabled text =
     FrozenCLIPEmbedder_forward text_model self grad_enabled text"

record FrozenT5Embedder =
  tokenizer :: hf_tokenizer
  transformer :: nn_module
  device :: string
  max_length :: int

definition FrozenT5Embedder_freeze :: "FrozenT5Embedder \<Rightarrow> FrozenT5Embedder" where
  "FrozenT5Embedder_freeze self =
     (let self = self\<lparr> FrozenT5Embedder.transformer :=
                         eval_mode (FrozenT5Embedder.transformer self) \<rparr>
      in self\<lparr> FrozenT5Embedder.transformer :=
                  no_grad_parameters (FrozenT5Embedder.transformer self) \<rparr>)"

text \<open>
  \<open>FrozenT5Embedder.__init__(device="cuda", max_length=77)\<close>; the two parameters stand
  for \<open>T5Tokenizer.from_pretrained\<close> and \<open>T5EncoderModel.from_pretrained\<close>.
\<close>

definition FrozenT5Embedder_init ::
  "(string \<Rightarrow> error + hf_tokenizer) \<Rightarrow> (string \<Rightarrow> error + nn_module) \<Rightarrow>
     string \<Rightarrow> int \<Rightarrow> error + FrozenT5Embedder" where
  "FrozenT5Embedder_init tokenizer_from_pretrained model_from_pretrained device' max_length' =
     (case tokenizer_from_pretrained ''google/t5-v1_1-xl'' of
        Inl e \<Rightarrow> Inl e
      | Inr tk \<Rightarrow>
          (case model_from_pretrained ''google/t5-v1_1-xl'' of
             Inl e \<Rightarrow> Inl e
           | Inr tr \<Rightarrow>
               Inr (FrozenT5Embedder_freeze
                      \<lparr> FrozenT5Embedder.tokenizer = tk,
                        FrozenT5Embedder.transformer = tr,
                        FrozenT5Embedder.device = device',
                        FrozenT5Embedder.max_length = max_length' \<rparr>)))"

text \<open>
  \<open>FrozenT5Embedder.forward\<close>. The whole body stands under \<open>with torch.no_grad():\<close>,
  which switches gradient recording off on entry and restores the caller's mode on exit,
  also when the body raises. The tokenizer call has one keyword argument,
  \<open>return_tensors="pt"\<close>; all others keep their defaults. The second component of the
  result is the gradient mode after the call.
\<close>

definition FrozenT5Embedder_forward ::
  "text_model \<Rightarrow> FrozenT5Embedder \<Rightarrow> bool \<Rightarrow> string list \<Rightarrow> (error + real tensor) \<times> bool" where
  "FrozenT5Embedder_forward text_model self grad_enabled text =
     (let prev = grad_enabled;
          grad_enabled = False;
          z = (case FrozenT5Embedder.tokenizer self text
                      (tokenizer_defaults\<lparr> return_tensors := Some ''pt'' \<rparr>) of
                 Inl e \<Rightarrow> Inl e
               | Inr batch_encoding \<Rightarrow>
                   (case getitem batch_encoding ''input_ids'' of
                      Inl e \<Rightarrow> Inl e
                    | Inr input_ids \<Rightarrow>
                        (case text_model (FrozenT5Embedder.transformer self) grad_enabled
                                (to input_ids (FrozenT5Embedder.device self)) of
                           Inl e \<Rightarrow> Inl e
                         | Inr outputs \<Rightarrow> Inr (last_hidden_state outputs))));
          grad_enabled = prev
      in (z, grad_enabled))"

definition FrozenT5Embedder_encode ::
  "text_model \<Rightarrow> FrozenT5Embedder \<Rightarrow> bool \<Rightarrow> string list \<Rightarrow> (error + real tensor) \<times> bool" where
  "FrozenT5Embedder_encode text_model self grad_enabled text =
     FrozenT5Embedder_forward text_model self grad_enabled text"

text \<open>
  A text model that refuses to run while gradients are recorded. Running a forward pass
  with it in place of the model shows whether the model is ever called in that mode.
\<close>

definition grad_checked :: "text_model \<Rightarrow> text_model" where
  "grad_checked text_model m grad_enabled input_ids =
     (if grad_enabled then Inl RuntimeError else text_model m grad_enabled input_ids)"

text \<open>
  A tokenizer that refuses every call that asks for truncation, for padding or for a
  maximal length. Running a forward pass with it in place of the tokenizer shows whether
  such a call is ever made.
\<close>

definition unpadded_only :: "hf_tokenizer \<Rightarrow> hf_tokenizer" where
  "unpadded_only tok text kw =
     (if truncation kw \<or> padding kw \<noteq> DoNotPad \<or> tokenizer_kwargs.max_length kw \<noteq> None
      then Inl ValueError
      else tok text kw)"

text \<open>
  What transformers documents for an encoder without a length limit: \<open>input_ids\<close> of
  shape \<open>(B, L)\<close> give \<open>last_hidden_state\<close> of shape \<open>(B, L, D)\<close>, \<open>D\<close> the model's hidden
  size.
\<close>

definition hidden_states_spec :: "text_model \<Rightarrow> nat \<Rightarrow> bool" where
  "hidden_states_spec text_model D \<longleftrightarrow>
     (\<forall>m g b l xs d.
        \<exists>out ys. text_model m g (Tensor [b, l] xs d) = Inr out \<and>
                 last_hidden_state out = Tensor [b, l, D] ys d)"

text \<open>An instance: every position gets the vector of \<open>D\<close> zeros.\<close>

definition zero_text_model :: "nat \<Rightarrow> text_model" where
  "zero_text_model D m grad_enabled input_ids =
     (case shape input_ids of
        [b, l] \<Rightarrow>
          Inr \<lparr> last_hidden_state = Tensor [b, l, D] (replicate (b * l * D) 0) (dev input_ids) \<rparr>
      | _ \<Rightarrow> Inl RuntimeError)"

subsection \<open>FrozenCLIPTextEmbedder\<close>

record FrozenCLIPTextEmbedder =
  model :: nn_module
  device :: string
  max_length :: int
  n_repeat :: int
  normalize :: bool

text \<open>
  \<open>FrozenCLIPTextEmbedder.__init__(version="ViT-L/14", device="cuda", max_length=77,
  n_repeat=1, normalize=True)\<close>. \<open>clip_load\<close> stands for \<open>clip.load(name, jit=...,
  device=...)\<close>, which returns the model and a preprocessing transform; the constructor
  keeps the model and drops the transform. There is no call of \<open>freeze\<close>.
\<close>

definition FrozenCLIPTextEmbedder_init ::
  "(string \<Rightarrow> bool \<Rightarrow> string \<Rightarrow> error + nn_module \<times> 'p) \<Rightarrow>
     string \<Rightarrow> string \<Rightarrow> int \<Rightarrow> int \<Rightarrow> bool \<Rightarrow> error + FrozenCLIPTextEmbedder" where
  "FrozenCLIPTextEmbedder_init clip_load version device' max_length' n_repeat' normalize' =
     (case clip_load version False ''cpu'' of
        Inl e \<Rightarrow> Inl e
      | Inr (m, _) \<Rightarrow>
          Inr \<lparr> FrozenCLIPTextEmbedder.model = m,
                FrozenCLIPTextEmbedder.device = device',
                FrozenCLIPTextEmbedder.max_length = max_length',
                n_repeat = n_repeat',
                normalize = normalize' \<rparr>)"

definition FrozenCLIPTextEmbedder_freeze :: "FrozenCLIPTextEmbedder \<Rightarrow> FrozenCLIPTextEmbedder" where
  "FrozenCLIPTextEmbedder_freeze self =
     (let self = self\<lparr> FrozenCLIPTextEmbedder.model :=
                         eval_mode (FrozenCLIPTextEmbedder.model self) \<rparr>
      in self\<lparr> FrozenCLIPTextEmbedder.model :=
                  no_grad_parameters (FrozenCLIPTextEmbedder.model self) \<rparr>)"

text \<open>
  \<open>FrozenCLIPTextEmbedder.forward\<close>. The parameters stand for \<open>clip.tokenize\<close>,
  \<open>self.model.encode_text\<close>, \<open>torch.linalg.norm(z, dim=..., keepdim=...)\<close> and the
  division of tensors. Tensor elements are real numbers here: rounding, infinities and
  NaN of floating-point arithmetic are not modelled.
\<close>

definition FrozenCLIPTextEmbedder_forward ::
  "(string list \<Rightarrow> error + int tensor) \<Rightarrow> (nn_module \<Rightarrow> int tensor \<Rightarrow> error + real tensor) \<Rightarrow>
   (real tensor \<Rightarrow> nat \<Rightarrow> bool \<Rightarrow> error + real tensor) \<Rightarrow>
   (real tensor \<Rightarrow> real tensor \<Rightarrow> error + real tensor) \<Rightarrow>
     FrozenCLIPTextEmbedder \<Rightarrow> string list \<Rightarrow> error + real tensor" where
  "FrozenCLIPTextEmbedder_forward clip_tokenize encode_text linalg_norm true_divide self text =
     (case clip_tokenize text of
        Inl e \<Rightarrow> Inl e
      | Inr tk \<Rightarrow>
          (let tokens = to tk (FrozenCLIPTextEmbedder.device self) in
           case encode_text (FrozenCLIPTextEmbedder.model self) tokens of
             Inl e \<Rightarrow> Inl e
           | Inr z \<Rightarrow>
               if normalize self
               then (case linalg_norm z 1 True of
                       Inl e \<Rightarrow> Inl e
                     | Inr n \<Rightarrow> true_divide z n)
               else Inr z))"

text \<open>\<open>z[:, None, :]\<close> on a two-dimensional tensor: a new axis of size 1 in the middle.\<close>

definition index_none_middle :: "'a tensor \<Rightarrow> error + 'a tensor" where
  "index_none_middle z =
     (case shape z of
        [b, d] \<Rightarrow> Inr (Tensor [b, 1, d] (data z) (dev z))
      | _ \<Rightarrow> Inl IndexError)"

text \<open>
  \<open>FrozenCLIPTextEmbedder.encode\<close>. \<open>repeat\<close> stands for \<open>einops.repeat\<close> and receives
  the tensor, the pattern and the value of \<open>k\<close>.
\<close>

definition FrozenCLIPTextEmbedder_encode ::
  "(string list \<Rightarrow> error + int tensor) \<Rightarrow> (nn_module \<Rightarrow> int tensor \<Rightarrow> error + real tensor) \<Rightarrow>
   (real tensor \<Rightarrow> nat \<Rightarrow> bool \<Rightarrow> error + real tensor) \<Rightarrow>
   (real tensor \<Rightarrow> real tensor \<Rightarrow> error + real tensor) \<Rightarrow>
   (real tensor \<Rightarrow> string \<Rightarrow> int \<Rightarrow> error + real tensor) \<Rightarrow>
     FrozenCLIPTextEmbedder \<Rightarrow> string list \<Rightarrow> error + real tensor" where
  "FrozenCLIPTextEmbedder_encode clip_tokenize encode_text linalg_norm true_divide repeat self text =
     (case FrozenCLIPTextEmbedder_forward clip_tokenize encode_text linalg_norm true_divide self text of
        Inl e \<Rightarrow> Inl e
      | Inr z \<Rightarrow>
          (case (if ndim z = 2 then index_none_middle z else Inr z) of
             Inl e \<Rightarrow> Inl e
           | Inr z \<Rightarrow> repeat z ''b 1 d -> b k d'' (n_repeat self)))"

text \<open>
  The rows of a two-dimensional tensor are the consecutive blocks of its data, each as
  long as the last axis. \<open>l2norm\<close> is the Euclidean norm of a row.
\<close>

fun chunks :: "nat \<Rightarrow> 'a list \<Rightarrow> 'a list list" where
  "chunks d xs = (if d = 0 \<or> xs = [] then [] else take d xs # chunks d (drop d xs))"

declare chunks.simps [simp del]

definition l2norm :: "real list \<Rightarrow> real" where
  "l2norm row = sqrt (\<Sum>v\<leftarrow>row. v\<^sup>2)"

text \<open>
  What the libraries document for these calls. \<open>clip.tokenize\<close> on a batch it accepts
  returns tokens of shape \<open>(B, L)\<close>, \<open>L\<close> the context length. \<open>encode_text\<close> maps tokens
  of shape \<open>(B, L)\<close> to one pooled vector per row, shape \<open>(B, D)\<close>. The norm along axis 1
  with \<open>keepdim\<close> of a \<open>(B, D)\<close> tensor has shape \<open>(B, 1)\<close> and holds the Euclidean norm of
  each row; dividing a \<open>(B, D)\<close> tensor by a \<open>(B, 1)\<close> tensor without zeros divides each
  row by its entry. \<open>repeat\<close> with the pattern \<open>b 1 d -> b k d\<close> and a positive \<open>k\<close> repeats
  each row \<open>k\<close> times along the middle axis.
\<close>

definition encode_text_spec ::
  "(nn_module \<Rightarrow> int tensor \<Rightarrow> error + real tensor) \<Rightarrow> nat \<Rightarrow> bool" where
  "encode_text_spec encode_text D \<longleftrightarrow>
     (\<forall>m b l ts d.
        \<exists>xs. encode_text m (Tensor [b, l] ts d) = Inr (Tensor [b, D] xs d) \<and> length xs = b * D)"

definition linalg_norm_spec :: "(real tensor \<Rightarrow> nat \<Rightarrow> bool \<Rightarrow> error + real tensor) \<Rightarrow> bool" where
  "linalg_norm_spec linalg_norm \<longleftrightarrow>
     (\<forall>b d xs dv.
        linalg_norm (Tensor [b, d] xs dv) 1 True = Inr (Tensor [b, 1] (map l2norm (chunks d xs)) dv))"

definition true_divide_spec :: "(real tensor \<Rightarrow> real tensor \<Rightarrow> error + real tensor) \<Rightarrow> bool" where
  "true_divide_spec true_divide \<longleftrightarrow>
     (\<forall>b d xs ns dv.
        0 \<notin> set ns \<and> length ns = length (chunks d xs) \<longrightarrow>
        true_divide (Tensor [b, d] xs dv) (Tensor [b, 1] ns dv) =
          Inr (Tensor [b, d]
                 (concat (map (\<lambda>(row, n). map (\<lambda>v. v / n) row) (zip (chunks d xs) ns))) dv))"

definition repeat_spec :: "(real tensor \<Rightarrow> string \<Rightarrow> int \<Rightarrow> error + real tensor) \<Rightarrow> bool" where
  "repeat_spec repeat \<longleftrightarrow>
     (\<forall>b d xs dv k.
        0 < k \<longrightarrow>
        repeat (Tensor [b, 1, d] xs dv) ''b 1 d -> b k d'' k =
          Inr (Tensor [b, nat k, d]
                 (concat (map (\<lambda>row. concat (replicate (nat k) row)) (chunks d xs))) dv))"

text \<open>
  Instances: a tokenizer with context length 4 that raises on longer input, as
  \<open>clip.tokenize\<close> does without \<open>truncate\<close>; a text tower that returns the first two
  token ids of each row, shifted by one, as its pooled vector; and the three tensor
  operations on the shapes above.
\<close>

definition short_clip_tokenize :: "string list \<Rightarrow> error + int tensor" where
  "short_clip_tokenize text =
     (if \<exists>s \<in> set text. 4 < length s then Inl RuntimeError
      else Inr (Tensor [length text, 4]
             (concat (map (\<lambda>s. padded_row 0 4 (map (\<lambda>c. int (of_char c)) s)) text)) ''cpu''))"

definition first_two_encode_text :: "nn_module \<Rightarrow> int tensor \<Rightarrow> error + real tensor" where
  "first_two_encode_text m tokens =
     (case shape tokens of
        [b, l] \<Rightarrow>
          Inr (Tensor [b, 2]
                 (concat (map (\<lambda>i. [real_of_int (data tokens ! (i * l)) + 1,
                                     real_of_int (data tokens ! (i * l + 1)) + 1]) [0..<b]))
                 (dev tokens))
      | _ \<Rightarrow> Inl RuntimeError)"

definition rows_linalg_norm :: "real tensor \<Rightarrow> nat \<Rightarrow> bool \<Rightarrow> error + real tensor" where
  "rows_linalg_norm z axis keepdim =
     (case shape z of
        [b, d] \<Rightarrow>
          if axis = 1 \<and> keepdim
          then Inr (Tensor [b, 1] (map l2norm (chunks d (data z))) (dev z))
          else Inl RuntimeError
      | _ \<Rightarrow> Inl RuntimeError)"

definition rows_divide :: "real tensor \<Rightarrow> real tensor \<Rightarrow> error + real tensor" where
  "rows_divide z n =
     (case (shape z, shape n) of
        ([b, d], [b', one]) \<Rightarrow>
          if b = b' \<and> one = 1
          then Inr (Tensor [b, d]
                 (concat (map (\<lambda>(row, n). map (\<lambda>v. v / n) row) (zip (chunks d (data z)) (data n))))
                 (dev z))
          else Inl RuntimeError
      | _ \<Rightarrow> Inl RuntimeError)"

definition rows_repeat :: "real tensor \<Rightarrow> string \<Rightarrow> int \<Rightarrow> error + real tensor" where
  "rows_repeat z pattern k =
     (case shape z of
        [b, one, d] \<Rightarrow>
          if pattern = ''b 1 d -> b k d'' \<and> one = 1 \<and> 0 < k
          then Inr (Tensor [b, nat k, d]
                 (concat (map (\<lambda>row. concat (replicate (nat k) row)) (chunks d (data z))))
                 (dev z))
          else Inl EinopsError
      | _ \<Rightarrow> Inl EinopsError)"

subsection \<open>FrozenClipImageEmbedder\<close>

record FrozenClipImageEmbedder =
  model :: nn_module
  antialias :: bool
  buffers :: "(string \<times> Buffer) list"

text \<open>
  \<open>torch.Tensor([...])\<close> of a list of numbers, \<open>self.register_buffer(name, tensor,
  persistent=...)\<close> on the buffers registered so far, and reading a buffer as an
  attribute (\<open>self.mean\<close>). An argument left out of a call takes its default.
\<close>

definition torch_Tensor :: "real list \<Rightarrow> real tensor" where
  "torch_Tensor xs = Tensor [length xs] xs ''cpu''"

definition register_buffer ::
  "string \<Rightarrow> real tensor \<Rightarrow> bool \<Rightarrow> (string \<times> Buffer) list \<Rightarrow> (string \<times> Buffer) list" where
  "register_buffer name t persistent' bufs = bufs @ [(name, Buffer t persistent')]"

definition buffer_attr :: "(string \<times> Buffer) list \<Rightarrow> string \<Rightarrow> error + real tensor" where
  "buffer_attr bufs name =
     (case map_of bufs name of None \<Rightarrow> Inl AttributeError | Some b \<Rightarrow> Inr (buffer_data b))"

definition arg_or :: "'a \<Rightarrow> 'a option \<Rightarrow> 'a" where
  "arg_or d a = (case a of None \<Rightarrow> d | Some v \<Rightarrow> v)"

text \<open>
  \<open>FrozenClipImageEmbedder.__init__(model, jit=False, device="cuda" if
  torch.cuda.is_available() else "cpu", antialias=False)\<close>; optional arguments are
  \<open>None\<close> when the caller leaves them out. \<open>clip_load\<close> receives the name, \<open>jit\<close> and the
  device.
\<close>

definition FrozenClipImageEmbedder_init ::
  "(string \<Rightarrow> bool \<Rightarrow> string \<Rightarrow> error + nn_module \<times> 'p) \<Rightarrow> bool \<Rightarrow>
     string \<Rightarrow> bool option \<Rightarrow> string option \<Rightarrow> bool option \<Rightarrow> error + FrozenClipImageEmbedder" where
  "FrozenClipImageEmbedder_init clip_load cuda_is_available model' jit device' antialias' =
     (case clip_load model' (arg_or False jit)
             (arg_or (if cuda_is_available then ''cuda'' else ''cpu'') device') of
        Inl e \<Rightarrow> Inl e
      | Inr (m, _) \<Rightarrow>
          Inr \<lparr> FrozenClipImageEmbedder.model = m,
                antialias = arg_or False antialias',
                buffers =
                  register_buffer ''std''
                    (torch_Tensor [0.26862954, 0.26130258, 0.27577711]) False
                    (register_buffer ''mean''
                       (torch_Tensor [0.48145466, 0.4578275, 0.40821073]) False []) \<rparr>)"

text \<open>The instance as a module of torch: no parameter of its own, its buffers, and
  \<open>self.model\<close> as its one submodule.\<close>

definition FrozenClipImageEmbedder_module :: "FrozenClipImageEmbedder \<Rightarrow> nn_module" where
  "FrozenClipImageEmbedder_module self =
     Module True [] (buffers self) [(''model'', FrozenClipImageEmbedder.model self)]"

text \<open>\<open>x + c\<close> and \<open>x / c\<close> of a tensor and a number work on every element.\<close>

definition add_scalar :: "real tensor \<Rightarrow> real \<Rightarrow> real tensor" where
  "add_scalar x c = Tensor (shape x) (map (\<lambda>v. v + c) (data x)) (dev x)"

definition div_scalar :: "real tensor \<Rightarrow> real \<Rightarrow> real tensor" where
  "div_scalar x c = Tensor (shape x) (map (\<lambda>v. v / c) (data x)) (dev x)"

text \<open>
  \<open>FrozenClipImageEmbedder.preprocess\<close>. \<open>resize\<close> stands for
  \<open>kornia.geometry.resize(x, size, interpolation=..., align_corners=...,
  antialias=...)\<close> and \<open>kornia_normalize\<close> for \<open>kornia.enhance.normalize(x, mean, std)\<close>.
\<close>

definition FrozenClipImageEmbedder_preprocess ::
  "(real tensor \<Rightarrow> nat \<times> nat \<Rightarrow> string \<Rightarrow> bool \<Rightarrow> bool \<Rightarrow> error + real tensor) \<Rightarrow>
   (real tensor \<Rightarrow> real tensor \<Rightarrow> real tensor \<Rightarrow> error + real tensor) \<Rightarrow>
     FrozenClipImageEmbedder \<Rightarrow> real tensor \<Rightarrow> error + real tensor" where
  "FrozenClipImageEmbedder_preprocess resize kornia_normalize self x =
     (case resize x (224, 224) ''bicubic'' True (antialias self) of
        Inl e \<Rightarrow> Inl e
      | Inr x \<Rightarrow>
          (let x = div_scalar (add_scalar x 1.0) 2.0 in
           case buffer_attr (buffers self) ''mean'' of
             Inl e \<Rightarrow> Inl e
           | Inr mean \<Rightarrow>
               (case buffer_attr (buffers self) ''std'' of
                  Inl e \<Rightarrow> Inl e
                | Inr std \<Rightarrow> kornia_normalize x mean std)))"

definition FrozenClipImageEmbedder_forward ::
  "(real tensor \<Rightarrow> nat \<times> nat \<Rightarrow> string \<Rightarrow> bool \<Rightarrow> bool \<Rightarrow> error + real tensor) \<Rightarrow>
   (real tensor \<Rightarrow> real tensor \<Rightarrow> real tensor \<Rightarrow> error + real tensor) \<Rightarrow>
   (nn_module \<Rightarrow> real tensor \<Rightarrow> error + real tensor) \<Rightarrow>
     FrozenClipImageEmbedder \<Rightarrow> real tensor \<Rightarrow> error + real tensor" where
  "FrozenClipImageEmbedder_forward resize kornia_normalize encode_image self x =
     (case FrozenClipImageEmbedder_preprocess resize kornia_normalize self x of
        Inl e \<Rightarrow> Inl e
      | Inr x \<Rightarrow> encode_image (FrozenClipImageEmbedder.model self) x)"

text \<open>
  Instances of the two kornia functions on \<open>(B, C, H, W)\<close> tensors: a resize that fills
  the new size with the first element of each channel, and the per-channel
  \<open>(x - mean) / std\<close>.
\<close>

definition corner_resize ::
  "real tensor \<Rightarrow> nat \<times> nat \<Rightarrow> string \<Rightarrow> bool \<Rightarrow> bool \<Rightarrow> error + real tensor" where
  "corner_resize x size' interpolation align_corners antialias' =
     (case shape x of
        [b, c, h, w] \<Rightarrow>
          if h = 0 \<or> w = 0 then Inl RuntimeError
          else Inr (Tensor [b, c, fst size', snd size']
                  (concat (map (\<lambda>p. replicate (fst size' * snd size') (data x ! (p * h * w)))
                     [0..<b * c]))
                  (dev x))
      | _ \<Rightarrow> Inl RuntimeError)"

definition channel_normalize :: "real tensor \<Rightarrow> real tensor \<Rightarrow> real tensor \<Rightarrow> error + real tensor" where
  "channel_normalize x mean std =
     (case shape x of
        [b, c, h, w] \<Rightarrow>
          if shape mean \<noteq> [c] \<or> shape std \<noteq> [c] then Inl RuntimeError
          else Inr (Tensor [b, c, h, w]
                  (map (\<lambda>i. (data x ! i - data mean ! ((i div (h * w)) mod c))
                               / data std ! ((i div (h * w)) mod c))
                     [0..<b * c * h * w])
                  (dev x))
      | _ \<Rightarrow> Inl RuntimeError)"

subsection \<open>FrozenSDUNet\<close>

text \<open>
  The attributes that \<open>freeze\<close> and \<open>forward\<close> read: the configuration, the checkpoint
  path, the configured timesteps (\<open>None\<close> by default) and the loaded diffusion model.
  Loading the checkpoint in the constructor is not modelled.
\<close>

record 'cfg FrozenSDUNet =
  config :: 'cfg
  ckpt_path :: string
  timesteps :: "int list option"
  model :: nn_module

definition FrozenSDUNet_freeze :: "'cfg FrozenSDUNet \<Rightarrow> 'cfg FrozenSDUNet" where
  "FrozenSDUNet_freeze self =
     (let self = self\<lparr> FrozenSDUNet.model := eval_mode (FrozenSDUNet.model self) \<rparr>
      in self\<lparr> FrozenSDUNet.model := no_grad_parameters (FrozenSDUNet.model self) \<rparr>)"

text \<open>
  What \<open>forward\<close> calls: \<open>self.model.ema_scope()\<close> (the state of the model inside the
  \<open>with\<close> block), \<open>torch.randint(low, high, size, device=...)\<close> and
  \<open>torch.randn_like(z)\<close>, which draw from a generator of type \<open>'g\<close> and leave it in a new
  state, \<open>self.model.q_sample(x_start=..., t=..., noise=...)\<close> and
  \<open>self.model.apply_model(z_noisy, t, c)\<close>, which returns the pair of the prediction and
  the list of recorded features.
\<close>

record ('g, 'c) diffusion_calls =
  ema_scope :: "nn_module \<Rightarrow> nn_module"
  randint :: "'g \<Rightarrow> int \<Rightarrow> int \<Rightarrow> nat list \<Rightarrow> string \<Rightarrow> error + int tensor \<times> 'g"
  randn_like :: "'g \<Rightarrow> real tensor \<Rightarrow> real tensor \<times> 'g"
  q_sample :: "nn_module \<Rightarrow> real tensor \<Rightarrow> int tensor \<Rightarrow> real tensor \<Rightarrow> error + real tensor"
  apply_model ::
    "nn_module \<Rightarrow> real tensor \<Rightarrow> int tensor \<Rightarrow> 'c \<Rightarrow> error + real tensor \<times> real tensor list"

text \<open>
  The timestep tensor of \<open>forward\<close>. Arguments are evaluated from left to right:
  \<open>self.timesteps[0]\<close> raises \<open>TypeError\<close> when \<open>timesteps\<close> is \<open>None\<close> and
  \<open>IndexError\<close> when it is empty; \<open>z.shape[0]\<close> raises on a tensor without axes.
  \<open>.long()\<close> changes no value.
\<close>

definition sample_timestep ::
  "('g, 'c) diffusion_calls \<Rightarrow> 'cfg FrozenSDUNet \<Rightarrow> 'g \<Rightarrow> real tensor \<Rightarrow> int option \<Rightarrow>
     error + int tensor \<times> 'g" where
  "sample_timestep calls self g z timestep =
     (case timestep of
        None \<Rightarrow>
          (case timesteps self of
             None \<Rightarrow> Inl TypeError
           | Some ts \<Rightarrow>
               (case ts of
                  [] \<Rightarrow> Inl IndexError
                | _ \<Rightarrow>
                    (case shape z of
                       [] \<Rightarrow> Inl IndexError
                     | b # _ \<Rightarrow> randint calls g (hd ts) (last ts) [b] (dev z))))
      | Some t \<Rightarrow>
          (case shape z of
             [] \<Rightarrow> Inl IndexError
           | b # _ \<Rightarrow> randint calls g t (t + 1) [b] (dev z)))"

text \<open>
  \<open>FrozenSDUNet.forward(z, c, timestep=None)\<close>, started with the generator in state
  \<open>g\<close>; the result is \<open>all_features\<close> together with the generator's new state.
\<close>

definition FrozenSDUNet_forward ::
  "('g, 'c) diffusion_calls \<Rightarrow> 'cfg FrozenSDUNet \<Rightarrow> 'g \<Rightarrow> real tensor \<Rightarrow> 'c \<Rightarrow> int option \<Rightarrow>
     error + real tensor list \<times> 'g" where
  "FrozenSDUNet_forward calls self g z c timestep =
     (let m = ema_scope calls (FrozenSDUNet.model self) in
      case sample_timestep calls self g z timestep of
        Inl e \<Rightarrow> Inl e
      | Inr (t, g) \<Rightarrow>
          (case randn_like calls g z of
             (noise, g) \<Rightarrow>
               (case q_sample calls m z t noise of
                  Inl e \<Rightarrow> Inl e
                | Inr z_noisy \<Rightarrow>
                    (case apply_model calls m z_noisy t c of
                       Inl e \<Rightarrow> Inl e
                     | Inr (z_recon, all_features) \<Rightarrow> Inr (all_features, g)))))"

definition FrozenSDUNet_encode ::
  "('g, 'c) diffusion_calls \<Rightarrow> 'cfg FrozenSDUNet \<Rightarrow> 'g \<Rightarrow> real tensor \<Rightarrow> 'c \<Rightarrow> int option \<Rightarrow>
     error + real tensor list \<times> 'g" where
  "FrozenSDUNet_encode calls self g z c timestep = FrozenSDUNet_forward calls self g z c timestep"

text \<open>
  What torch documents for \<open>randint\<close> with \<open>low < high\<close> and a one-dimensional size: a
  tensor of that size on the given device, every element an integer from \<open>low\<close>
  (included) to \<open>high\<close> (excluded).
\<close>

definition randint_spec ::
  "('g \<Rightarrow> int \<Rightarrow> int \<Rightarrow> nat list \<Rightarrow> string \<Rightarrow> error + int tensor \<times> 'g) \<Rightarrow> bool" where
  "randint_spec ri \<longleftrightarrow>
     (\<forall>g lo hi n d.
        lo < hi \<longrightarrow>
        (\<exists>xs g'. ri g lo hi [n] d = Inr (Tensor [n] xs d, g') \<and> length xs = n \<and>
                  (\<forall>x \<in> set xs. lo \<le> x \<and> x < hi)))"

text \<open>
  Instances: a generator that is a counter, with \<open>randint\<close> and \<open>randn_like\<close> reading
  values off it; a noising step that adds the noise scaled by the timestep; a denoiser
  that records its input and the noise-free input halved as features.
\<close>

definition counter_randint ::
  "nat \<Rightarrow> int \<Rightarrow> int \<Rightarrow> nat list \<Rightarrow> string \<Rightarrow> error + int tensor \<times> nat" where
  "counter_randint g lo hi size' d =
     (case size' of
        [n] \<Rightarrow>
          if hi \<le> lo then Inl RuntimeError
          else Inr (Tensor [n] (map (\<lambda>i. lo + int ((g + 7 * i) mod nat (hi - lo))) [0..<n]) d,
                    g + n)
      | _ \<Rightarrow> Inl RuntimeError)"

definition counter_randn_like :: "nat \<Rightarrow> real tensor \<Rightarrow> real tensor \<times> nat" where
  "counter_randn_like g z =
     (Tensor (shape z) (map (\<lambda>i. real ((g + i) mod 3) - 1) [0..<length (data z)]) (dev z),
      g + length (data z))"

definition counter_calls :: "(nat, unit) diffusion_calls" where
  "counter_calls =
     \<lparr> ema_scope = (\<lambda>m. m),
       randint = counter_randint,
       randn_like = counter_randn_like,
       q_sample = (\<lambda>m x_start t noise.
          Inr (Tensor (shape x_start)
                 (map (\<lambda>(x, n). x + real_of_int (hd (data t)) / 1000 * n)
                    (zip (data x_start) (data noise)))
                 (dev x_start))),
       apply_model = (\<lambda>m z_noisy t c.
          Inr (z_noisy, [z_noisy, div_scalar z_noisy 2])) \<rparr>"

subsection \<open>Facts about SpatialRescaler\<close>

lemma nearest_interpolate_spec: "interpolate_spec nearest_interpolate"
  unfolding interpolate_spec_def nearest_interpolate_def by auto

lemma ones_conv2d_spec: "conv2d_spec ones_conv2d"
  unfolding conv2d_spec_def ones_conv2d_def by auto

lemma scaled_size_half: "scaled_size n (1 / 2) = n div 2"
proof -
  have "\<lfloor>real n * (1 / 2)\<rfloor> = \<lfloor>real_of_int (int n) / real_of_int 2\<rfloor>"
    by simp
  also have "\<dots> = int n div 2"
    by (rule floor_divide_of_int_eq)
  finally show ?thesis
    unfolding scaled_size_def by (simp add: nat_div_distrib)
qed

lemma interpolate_stages_half:
  assumes spec: "interpolate_spec interpolate"
    and mode: "interpolator_mode m \<in> set spatial_modes"
    and mult: "multiplier m = 1 / 2"
  shows "2 ^ k \<le> h \<Longrightarrow> 2 ^ k \<le> w \<Longrightarrow>
         \<exists>ys. interpolate_stages interpolate m k (Tensor [b, c, h, w] xs d) =
               Inr (Tensor [b, c, h div 2 ^ k, w div 2 ^ k] ys d)"
proof (induction k arbitrary: h w xs)
  case 0
  then show ?case by simp
next
  case (Suc k)
  from Suc.prems have h: "2 ^ k \<le> h div 2" and w: "2 ^ k \<le> w div 2"
    by simp_all
  have "0 < (2::nat) ^ k" by simp
  with h w have pos: "0 < scaled_size h (1 / 2)" "0 < scaled_size w (1 / 2)"
    unfolding scaled_size_half by linarith+
  from spec have
    "interpolator_mode m \<in> set spatial_modes \<and>
       0 < scaled_size h (1 / 2) \<and> 0 < scaled_size w (1 / 2) \<longrightarrow>
     (\<exists>ys. interpolate (Tensor [b, c, h, w] xs d) (1 / 2) (interpolator_mode m) =
            Inr (Tensor [b, c, scaled_size h (1 / 2), scaled_size w (1 / 2)] ys d))"
    unfolding interpolate_spec_def by blast
  with mode pos obtain ys where
    step: "interpolate (Tensor [b, c, h, w] xs d) (1 / 2) (interpolator_mode m) =
           Inr (Tensor [b, c, h div 2, w div 2] ys d)"
    unfolding scaled_size_half by blast
  from Suc.IH [OF h w] obtain zs where
    rest: "interpolate_stages interpolate m k (Tensor [b, c, h div 2, w div 2] ys d) =
           Inr (Tensor [b, c, h div 2 div 2 ^ k, w div 2 div 2 ^ k] zs d)"
    by blast
  have "interpolate_stages interpolate m (Suc k) (Tensor [b, c, h, w] xs d) =
        interpolate_stages interpolate m k (Tensor [b, c, h div 2, w div 2] ys d)"
    unfolding interpolate_stages.simps mult step by simp
  with rest show ?case
    by (simp add: div_mult2_eq del: interpolate_stages.simps)
qed

lemma interpolate_pass_simps:
  "interpolate_pass interpolate m (Inl e) = Inl e"
  "interpolate_pass interpolate m (Inr x) = interpolate x (multiplier m) (interpolator_mode m)"
  by (simp_all add: interpolate_pass_def)

lemma interpolate_pass_error: "(interpolate_pass interpolate m ^^ k) (Inl e) = Inl e"
  by (induction k) (simp_all add: interpolate_pass_simps)

lemma interpolate_stages_funpow:
  "interpolate_stages interpolate m k x = (interpolate_pass interpolate m ^^ k) (Inr x)"
proof (induction k arbitrary: x)
  case 0
  show ?case by simp
next
  case (Suc k)
  have "(interpolate_pass interpolate m ^^ Suc k) (Inr x) =
        (interpolate_pass interpolate m ^^ k) (interpolate x (multiplier m) (interpolator_mode m))"
    by (simp add: funpow_swap1 interpolate_pass_simps)
  then show ?case
    using Suc.IH
    by (cases "interpolate x (multiplier m) (interpolator_mode m)")
       (simp_all add: interpolate_pass_error del: funpow.simps)
qed

lemma SpatialRescaler_init_Inr:
  "SpatialRescaler_init n method mu cin cout bi = Inr m \<Longrightarrow>
     0 \<le> n \<and> method \<in> set interpolation_methods \<and>
     m = \<lparr> n_stages = n, multiplier = mu, interpolator_mode = method,
           remap_output = (cout \<noteq> None),
           channel_mapper = (case cout of None \<Rightarrow> None | Some oc \<Rightarrow> Some (Conv2d cin oc 1 bi)) \<rparr>"
  by (auto simp: SpatialRescaler_init_def split: if_splits)

text \<open>
  C4. For a module built by the constructor, \<open>encode\<close> is exactly \<open>n_stages\<close>
  successive interpolation passes, each with \<open>scale_factor = multiplier\<close> and the
  configured mode, followed by the \<open>1 \<times> 1\<close> convolution if and only if \<open>out_channels\<close>
  was given. With \<open>n_stages = 0\<close> no interpolation happens: the input is passed
  through (to the convolution, if configured). With \<open>multiplier = 0.5\<close> and
  \<open>n_stages = k\<close>, an input of shape \<open>(B, C, H, W)\<close> whose spatial sizes are at least
  \<open>2 ^ k\<close> comes out with spatial sizes \<open>\<lfloor>H / 2 ^ k\<rfloor>\<close> and \<open>\<lfloor>W / 2 ^ k\<rfloor>\<close>, the floor
  being the rounding of \<open>interpolate\<close>, and with \<open>out_channels\<close> channels if configured
  and \<open>C\<close> otherwise.
\<close>

theorem SpatialRescaler_encode_stages:
  assumes init: "SpatialRescaler_init n method mu cin cout bi = Inr m"
  shows "SpatialRescaler_encode interpolate conv2d m x =
           (case (interpolate_pass interpolate m ^^ nat n) (Inr x) of
              Inl e \<Rightarrow> Inl e
            | Inr x' \<Rightarrow> (case cout of None \<Rightarrow> Inr x' | Some oc \<Rightarrow> conv2d (Conv2d cin oc 1 bi) x'))
         \<and> (n = 0 \<longrightarrow>
              SpatialRescaler_encode interpolate conv2d m x =
                (case cout of None \<Rightarrow> Inr x | Some oc \<Rightarrow> conv2d (Conv2d cin oc 1 bi) x))
         \<and> (mu = 1 / 2 \<and> interpolate_spec interpolate \<and> conv2d_spec conv2d \<and>
              method \<in> set spatial_modes \<and> shape x = [b, c, h, w] \<and>
              2 ^ nat n \<le> h \<and> 2 ^ nat n \<le> w \<and> (cout \<noteq> None \<longrightarrow> cin = c) \<longrightarrow>
              (\<exists>y. SpatialRescaler_encode interpolate conv2d m x = Inr y \<and>
                    shape y = [b, (case cout of None \<Rightarrow> c | Some oc \<Rightarrow> oc),
                               h div 2 ^ nat n, w div 2 ^ nat n]))"
proof (intro conjI impI)
  note m = SpatialRescaler_init_Inr [OF init]
  show general: "SpatialRescaler_encode interpolate conv2d m x =
           (case (interpolate_pass interpolate m ^^ nat n) (Inr x) of
              Inl e \<Rightarrow> Inl e
            | Inr x' \<Rightarrow> (case cout of None \<Rightarrow> Inr x' | Some oc \<Rightarrow> conv2d (Conv2d cin oc 1 bi) x'))"
    using m
    by (cases cout)
       (auto simp: SpatialRescaler_encode_def SpatialRescaler_forward_def
          interpolate_stages_funpow split: sum.splits)
  show "SpatialRescaler_encode interpolate conv2d m x =
          (case cout of None \<Rightarrow> Inr x | Some oc \<Rightarrow> conv2d (Conv2d cin oc 1 bi) x)"
    if "n = 0"
    using general that by simp
  show "\<exists>y. SpatialRescaler_encode interpolate conv2d m x = Inr y \<and>
             shape y = [b, (case cout of None \<Rightarrow> c | Some oc \<Rightarrow> oc),
                        h div 2 ^ nat n, w div 2 ^ nat n]"
    if H: "mu = 1 / 2 \<and> interpolate_spec interpolate \<and> conv2d_spec conv2d \<and>
           method \<in> set spatial_modes \<and> shape x = [b, c, h, w] \<and>
           2 ^ nat n \<le> h \<and> 2 ^ nat n \<le> w \<and> (cout \<noteq> None \<longrightarrow> cin = c)"
  proof -
    obtain xs d where x: "x = Tensor [b, c, h, w] xs d"
      using H by (cases x) simp
    have mode: "interpolator_mode m \<in> set spatial_modes" and mult: "multiplier m = 1 / 2"
      using m H by simp_all
    from interpolate_stages_half [OF _ mode mult, of interpolate "nat n" h w b c xs d] H
    obtain ys where
      st: "interpolate_stages interpolate m (nat n) x =
           Inr (Tensor [b, c, h div 2 ^ nat n, w div 2 ^ nat n] ys d)"
      unfolding x by blast
    show ?thesis
    proof (cases cout)
      case None
      with m st show ?thesis
        by (simp add: SpatialRescaler_encode_def SpatialRescaler_forward_def)
    next
      case (Some oc)
      with H have "cin = c" by simp
      from H have "conv2d_spec conv2d" by simp
      then obtain zs where
        "conv2d (Conv2d c oc 1 bi) (Tensor [b, c, h div 2 ^ nat n, w div 2 ^ nat n] ys d) =
         Inr (Tensor [b, oc, h div 2 ^ nat n, w div 2 ^ nat n] zs d)"
        unfolding conv2d_spec_def by blast
      with m st Some \<open>cin = c\<close> show ?thesis
        by (simp add: SpatialRescaler_encode_def SpatialRescaler_forward_def)
    qed
  qed
qed


theorem SpatialRescaler_encode_stages_witness:
  "\<exists>m y. SpatialRescaler_init 2 ''bilinear'' (1 / 2) 3 (Some 4) False = Inr m \<and>
     SpatialRescaler_encode nearest_interpolate ones_conv2d m
       (Tensor [1, 3, 8, 9] (replicate 216 0) ''cpu'') = Inr y \<and>
     shape y = [1, 4, 2, 2]"
proof -
  obtain m where init: "SpatialRescaler_init 2 ''bilinear'' (1 / 2) 3 (Some 4) False = Inr m"
    by (simp add: SpatialRescaler_init_def interpolation_methods_def)
  have "\<exists>y. SpatialRescaler_encode nearest_interpolate ones_conv2d m
               (Tensor [1, 3, 8, 9] (replicate 216 0) ''cpu'') = Inr y \<and>
             shape y = [1, case Some 4 of None \<Rightarrow> 3 | Some oc \<Rightarrow> oc,
                        8 div 2 ^ nat 2, 9 div 2 ^ nat 2]"
    by (rule SpatialRescaler_encode_stages [OF init, THEN conjunct2, THEN conjunct2, rule_format])
       (simp add: nearest_interpolate_spec ones_conv2d_spec spatial_modes_def)
  with init show ?thesis by simp
qed

text \<open>
  C10. The constructor fails with an assertion error exactly when \<open>n_stages\<close> is
  negative or the method is not one of the six names; otherwise it returns an instance.
  Every instance it returns has \<open>n_stages \<ge> 0\<close> and one of the six names as its mode,
  and its forward pass never hands \<open>interpolate\<close> any other mode: checking the mode
  on every call changes no result.
\<close>

theorem SpatialRescaler_init_asserts:
  "(SpatialRescaler_init n method mu cin cout bi = Inl AssertionError \<longleftrightarrow>
      \<not> (0 \<le> n \<and>
         method \<in> {''nearest'', ''linear'', ''bilinear'', ''trilinear'', ''bicubic'', ''area''})) \<and>
   ((\<exists>m. SpatialRescaler_init n method mu cin cout bi = Inr m) \<longleftrightarrow>
      0 \<le> n \<and>
      method \<in> {''nearest'', ''linear'', ''bilinear'', ''trilinear'', ''bicubic'', ''area''}) \<and>
   (\<forall>m. SpatialRescaler_init n method mu cin cout bi = Inr m \<longrightarrow>
      0 \<le> n_stages m \<and>
      interpolator_mode m \<in>
        {''nearest'', ''linear'', ''bilinear'', ''trilinear'', ''bicubic'', ''area''} \<and>
      (\<forall>interpolate conv2d x.
         SpatialRescaler_forward (mode_checked interpolate) conv2d m x =
         SpatialRescaler_forward interpolate conv2d m x))"
proof (intro conjI allI impI)
  show "SpatialRescaler_init n method mu cin cout bi = Inl AssertionError \<longleftrightarrow>
      \<not> (0 \<le> n \<and>
         method \<in> {''nearest'', ''linear'', ''bilinear'', ''trilinear'', ''bicubic'', ''area''})"
    by (simp add: SpatialRescaler_init_def interpolation_methods_def)
  show "(\<exists>m. SpatialRescaler_init n method mu cin cout bi = Inr m) \<longleftrightarrow>
      0 \<le> n \<and>
      method \<in> {''nearest'', ''linear'', ''bilinear'', ''trilinear'', ''bicubic'', ''area''}"
    by (simp add: SpatialRescaler_init_def interpolation_methods_def)
next
  fix m
  assume init: "SpatialRescaler_init n method mu cin cout bi = Inr m"
  note m = SpatialRescaler_init_Inr [OF init]
  from m show "0 \<le> n_stages m" by simp
  from m show "interpolator_mode m \<in>
        {''nearest'', ''linear'', ''bilinear'', ''trilinear'', ''bicubic'', ''area''}"
    by (simp add: interpolation_methods_def)
  fix interpolate conv2d x
  from m have mode: "interpolator_mode m \<in> set interpolation_methods"
    by simp
  have "interpolate_stages (mode_checked interpolate) m k y = interpolate_stages interpolate m k y"
    for k y
    by (induction k arbitrary: y) (simp_all add: mode_checked_def mode split: sum.splits)
  then show "SpatialRescaler_forward (mode_checked interpolate) conv2d m x =
         SpatialRescaler_forward interpolate conv2d m x"
    by (simp add: SpatialRescaler_forward_def)
qed

theorem SpatialRescaler_init_asserts_witness:
  "(\<exists>m. SpatialRescaler_init 1 ''bilinear'' (1 / 2) 3 None False = Inr m \<and>
        n_stages m = 1 \<and> interpolator_mode m = ''bilinear'') \<and>
   SpatialRescaler_init (- 1) ''bilinear'' (1 / 2) 3 None False = Inl AssertionError \<and>
   SpatialRescaler_init 1 ''cubic'' (1 / 2) 3 None False = Inl AssertionError"
proof -
  have "\<exists>m. SpatialRescaler_init 1 ''bilinear'' (1 / 2) 3 None False = Inr m"
    using SpatialRescaler_init_asserts [of 1 "''bilinear''" "1 / 2" 3 None False]
    by simp
  moreover have "SpatialRescaler_init (- 1) ''bilinear'' (1 / 2) 3 None False = Inl AssertionError"
    using SpatialRescaler_init_asserts [of "- 1" "''bilinear''" "1 / 2" 3 None False]
    by simp
  moreover have "SpatialRescaler_init 1 ''cubic'' (1 / 2) 3 None False = Inl AssertionError"
    using SpatialRescaler_init_asserts [of 1 "''cubic''" "1 / 2" 3 None False]
    by simp
  ultimately show ?thesis
    using SpatialRescaler_init_Inr [of 1 "''bilinear''" "1 / 2" 3 None False]
    by auto
qed

subsection \<open>Facts about the tokenizers\<close>

lemma length_padded_row: "length ts \<le> n \<Longrightarrow> length (padded_row pad n ts) = n"
  by (simp add: padded_row_def)

lemma length_concat_rows:
  "(\<And>r. r \<in> set rows \<Longrightarrow> length r = n) \<Longrightarrow> length (concat rows) = length rows * n"
  by (induction rows) simp_all

lemma char_tokens_range: "t \<in> set (char_tokens s) \<Longrightarrow> 0 \<le> t \<and> t < 256"
proof -
  have "(of_char c :: nat) < 256" for c :: char
  proof -
    have "(of_char c :: nat) mod 256 < 256" by simp
    then show ?thesis by (simp only: of_char_mod_256)
  qed
  then have "int (of_char c) < 256" for c :: char
    by (metis of_nat_less_iff of_nat_numeral)
  then show "t \<in> set (char_tokens s) \<Longrightarrow> 0 \<le> t \<and> t < 256"
    by (auto simp: char_tokens_def)
qed

lemma length_char_truncate:
  "2 \<le> n \<Longrightarrow> length (char_truncate n ts) = min n (length ts)"
  by (auto simp: char_truncate_def)


lemma char_truncate_range:
  assumes "t \<in> set (char_truncate n (char_tokens s))"
  shows "0 \<le> t \<and> t < 256"
proof (cases "length (char_tokens s) \<le> n")
  case True
  with assms show ?thesis by (simp add: char_truncate_def char_tokens_range)
next
  case False
  with assms have "t \<in> set (take (n - 1) (char_tokens s)) \<or> t = 102"
    by (auto simp: char_truncate_def)
  then show ?thesis
    using char_tokens_range [of t s] by (auto dest: in_set_takeD)
qed


lemma char_row_max_length:
  assumes "truncation kw" "padding kw = MaxLength" "tokenizer_kwargs.max_length kw = Some (int n)"
  shows "char_row kw s = padded_row 0 n (char_truncate n (char_tokens s))"
  using assms by (simp add: char_row_def)

lemma char_tokenizer_max_length:
  assumes "truncation kw" "padding kw = MaxLength" "tokenizer_kwargs.max_length kw = Some (int n)"
    "return_tensors kw = Some ''pt''" "2 \<le> n" "text \<noteq> []"
  shows "char_tokenizer text kw =
           Inr [''input_ids'' \<mapsto>
                Tensor [length text, n]
                  (concat (map (\<lambda>s. padded_row 0 n (char_truncate n (char_tokens s))) text))
                  ''cpu'']"
proof -
  define rows where "rows = map (char_row kw) text"
  have rows: "rows = map (\<lambda>s. padded_row 0 n (char_truncate n (char_tokens s))) text"
    unfolding rows_def using assms(1-3) by (simp add: char_row_max_length)
  have len: "length r = n" if "r \<in> set rows" for r
    using that assms(5) by (auto simp: rows length_padded_row length_char_truncate)
  from assms(6) have ne: "rows \<noteq> []" by (simp add: rows_def)
  then have "hd rows \<in> set rows" by (rule hd_in_set)
  then have hd: "length (hd rows) = n" by (rule len)
  have same: "\<not> (\<exists>r \<in> set rows. length r \<noteq> length (hd rows))"
    using len hd by blast
  have "char_tokenizer text kw =
          Inr [''input_ids'' \<mapsto> Tensor [length rows, length (hd rows)] (concat rows) ''cpu'']"
    unfolding char_tokenizer_def rows_def [symmetric] Let_def
    using assms same by simp
  then show ?thesis
    unfolding hd by (simp add: rows)
qed

lemma char_tokenizer_spec:
  "max_length_padding_spec char_tokenizer (\<lambda>s. length s + 2) 0 256 2"
  unfolding max_length_padding_spec_def
proof (intro conjI allI impI)
  fix batch :: "string list" and kw :: tokenizer_kwargs and n :: nat
  assume H: "truncation kw \<and> padding kw = MaxLength \<and> tokenizer_kwargs.max_length kw = Some (int n) \<and>
        return_tensors kw = Some ''pt'' \<and> 2 \<le> n \<and> batch \<noteq> []"
  let ?toks = "\<lambda>s. char_truncate n (char_tokens s)"
  have "char_tokenizer batch kw =
          Inr [''input_ids'' \<mapsto>
               Tensor [length batch, n] (concat (map (\<lambda>s. padded_row 0 n (?toks s)) batch)) ''cpu'']"
    using H by (intro char_tokenizer_max_length) simp_all
  moreover have "length (?toks s) = min n (length s + 2)" for s
    using H by (simp add: length_char_truncate char_tokens_def)
  moreover have "\<forall>t \<in> set (?toks s). 0 \<le> t \<and> t < int 256" for s
    using char_truncate_range by simp
  ultimately show "\<exists>enc toks d.
           char_tokenizer batch kw = Inr enc \<and>
           enc ''input_ids'' =
             Some (Tensor [length batch, n] (concat (map (\<lambda>s. padded_row 0 n (toks s)) batch)) d) \<and>
           (\<forall>s. length (toks s) = min n (length s + 2) \<and>
                (\<forall>t \<in> set (toks s). 0 \<le> t \<and> t < int 256))"
    by (intro exI [of _ "[''input_ids'' \<mapsto> _]"] exI [of _ ?toks] exI [of _ "''cpu''"]) simp
qed simp_all

lemma BERTTokenizer_forward_padded:
  assumes spec: "max_length_padding_spec tok ntokens pad vocab lo"
    and self: "BERTTokenizer.tokenizer self = tok" "BERTTokenizer.max_length self = int n"
    and n: "lo \<le> n" and nonempty: "text \<noteq> []"
  shows "\<exists>toks.
           (\<forall>s. length (toks s) = min n (ntokens s) \<and>
                (\<forall>t \<in> set (toks s). 0 \<le> t \<and> t < int vocab)) \<and>
           BERTTokenizer_forward self text =
             Inr (Tensor [length text, n] (concat (map (\<lambda>s. padded_row pad n (toks s)) text))
                    (BERTTokenizer.device self))"
proof -
  let ?kw = "\<lparr> truncation = True, tokenizer_kwargs.max_length = Some (int n), return_length = True,
               return_overflowing_tokens = False, padding = MaxLength,
               return_tensors = Some ''pt'' \<rparr>"
  from spec n nonempty obtain enc toks d where
    call: "tok text ?kw = Inr enc"
    and ids: "enc ''input_ids'' =
      Some (Tensor [length text, n] (concat (map (\<lambda>s. padded_row pad n (toks s)) text)) d)"
    and toks: "\<forall>s. length (toks s) = min n (ntokens s) \<and>
                (\<forall>t \<in> set (toks s). 0 \<le> t \<and> t < int vocab)"
  proof -
    from spec have
      "truncation ?kw \<and> padding ?kw = MaxLength \<and>
         tokenizer_kwargs.max_length ?kw = Some (int n) \<and>
         return_tensors ?kw = Some ''pt'' \<and> lo \<le> n \<and> text \<noteq> [] \<longrightarrow>
       (\<exists>enc toks d.
           tok text ?kw = Inr enc \<and>
           enc ''input_ids'' =
             Some (Tensor [length text, n] (concat (map (\<lambda>s. padded_row pad n (toks s)) text)) d) \<and>
           (\<forall>s. length (toks s) = min n (ntokens s) \<and>
                (\<forall>t \<in> set (toks s). 0 \<le> t \<and> t < int vocab)))"
      unfolding max_length_padding_spec_def by blast
    with n nonempty that show thesis by auto
  qed
  have "BERTTokenizer_forward self text =
          Inr (Tensor [length text, n] (concat (map (\<lambda>s. padded_row pad n (toks s)) text))
                 (BERTTokenizer.device self))"
    by (simp add: BERTTokenizer_forward_def self call getitem_def ids to_def)
  with toks show ?thesis by blast
qed


lemma padded_row_pad:
  "length ts \<le> j \<Longrightarrow> j < n \<Longrightarrow> padded_row pad n ts ! j = pad"
  by (simp add: padded_row_def nth_append)

lemma padded_row_range:
  "t \<in> set (padded_row pad n ts) \<Longrightarrow> t \<in> set ts \<or> t = pad"
  by (auto simp: padded_row_def)

lemma table_wrapper_spec: "TransformerWrapper_spec table_wrapper"
  unfolding TransformerWrapper_spec_def table_wrapper_def by auto

text \<open>
  C9. For a tokenizer built by the constructor and a non-empty batch, \<open>encode\<close> returns
  the integer token tensor of shape \<open>(B, max_length)\<close> itself when \<open>vq_interface\<close> is
  false, and the tuple \<open>(None, None, [None, None, tokens])\<close> when it is true: the first
  two components are empty and the token tensor is the last entry of the third. Each row
  of the tensor is the sequence's tokens (at most \<open>max_length\<close> of them) followed by the
  padding token id at every position past the sequence's token count. The tokenizer is
  assumed to pad and truncate as transformers documents (\<open>max_length_padding_spec\<close>).
\<close>

theorem BERTTokenizer_encode_tokens:
  assumes spec: "max_length_padding_spec tok ntokens pad vocab lo"
    and load: "from_pretrained ''bert-base-uncased'' = Inr tok"
    and n: "lo \<le> n" and nonempty: "text \<noteq> []"
  shows "\<exists>self toks tokens.
           BERTTokenizer_init from_pretrained device' vq (int n) = Inr self \<and>
           tokens = Tensor [length text, n]
                      (concat (map (\<lambda>s. padded_row pad n (toks s)) text)) device' \<and>
           (\<forall>s. length (toks s) = min n (ntokens s)) \<and>
           (\<forall>s j. min n (ntokens s) \<le> j \<and> j < n \<longrightarrow> padded_row pad n (toks s) ! j = pad) \<and>
           BERTTokenizer_encode self text =
             Inr (if vq then Triple None None [None, None, Some tokens] else Tokens tokens)"
proof -
  define self where
    "self = \<lparr> BERTTokenizer.tokenizer = tok, BERTTokenizer.device = device',
               BERTTokenizer.vq_interface = vq, BERTTokenizer.max_length = int n \<rparr>"
  have init: "BERTTokenizer_init from_pretrained device' vq (int n) = Inr self"
    by (simp add: BERTTokenizer_init_def load self_def)
  from BERTTokenizer_forward_padded [OF spec _ _ n nonempty, of self]
  obtain toks where
    toks: "\<forall>s. length (toks s) = min n (ntokens s) \<and>
               (\<forall>t \<in> set (toks s). 0 \<le> t \<and> t < int vocab)"
    and fwd: "BERTTokenizer_forward self text =
             Inr (Tensor [length text, n] (concat (map (\<lambda>s. padded_row pad n (toks s)) text))
                    device')"
    by (auto simp: self_def)
  have pads: "padded_row pad n (toks s) ! j = pad" if "min n (ntokens s) \<le> j \<and> j < n" for s j
    using that toks by (intro padded_row_pad) simp_all
  have "BERTTokenizer_encode self text =
          Inr (if vq then Triple None None
                  [None, None, Some (Tensor [length text, n]
                      (concat (map (\<lambda>s. padded_row pad n (toks s)) text)) device')]
               else Tokens (Tensor [length text, n]
                      (concat (map (\<lambda>s. padded_row pad n (toks s)) text)) device'))"
    by (simp add: BERTTokenizer_encode_def fwd) (simp add: self_def)
  with init toks pads show ?thesis by blast
qed

theorem BERTTokenizer_encode_tokens_witness:
  "\<exists>self tokens.
     BERTTokenizer_init (\<lambda>name. Inr char_tokenizer) ''cpu'' True 77 = Inr self \<and>
     BERTTokenizer_encode self [''a cat'', ''a dog''] = Inr (Triple None None [None, None, Some tokens]) \<and>
     shape tokens = [2, 77] \<and> dev tokens = ''cpu''"
proof -
  have load: "(\<lambda>name. Inr char_tokenizer) ''bert-base-uncased'' = Inr char_tokenizer"
    and n: "(2::nat) \<le> 77" and nonempty: "[''a cat'', ''a dog''] \<noteq> []"
    by simp_all
  from BERTTokenizer_encode_tokens
    [where from_pretrained = "\<lambda>name. Inr char_tokenizer" and device' = "''cpu''" and vq = True,
      OF char_tokenizer_spec load n nonempty]
  show ?thesis by auto
qed


text \<open>
  C1. For a \<open>BERTEmbedder\<close> built with \<open>use_tokenizer=True\<close> and every non-empty batch
  of \<open>B\<close> strings, \<open>encode\<close> returns a tensor of shape \<open>(B, max_seq_len, D)\<close>,
  \<open>D = n_embed\<close>, whatever the lengths of the strings: the transformer is called on a
  token tensor of shape \<open>(B, max_seq_len)\<close> in which longer inputs were cut to
  \<open>max_seq_len\<close> tokens and shorter ones padded up to it. The tokenizer is assumed to pad
  and truncate as transformers documents, the vocabulary size to cover the tokenizer's
  ids, and the transformer stack to behave as section 4.1 of the specification says.
\<close>

theorem BERTEmbedder_encode_shape:
  assumes spec: "max_length_padding_spec tok ntokens pad vocab lo"
    and wrapper: "TransformerWrapper_spec transformer_wrapper"
    and load: "from_pretrained ''bert-base-uncased'' = Inr tok"
    and L: "lo \<le> L" and vocab: "int vocab \<le> vocab_size" and D: "0 \<le> n_embed"
    and nonempty: "text \<noteq> []"
  shows "\<exists>self toks tokens z.
           BERTEmbedder_init from_pretrained n_embed n_layer vocab_size (int L) device' True
             dropout = Inr self \<and>
           (\<forall>s. length (toks s) = min L (ntokens s)) \<and>
           tokens = Tensor [length text, L]
                      (concat (map (\<lambda>s. padded_row pad L (toks s)) text)) ''cuda'' \<and>
           BERTEmbedder_encode transformer_wrapper self (Strings text) =
             transformer_wrapper (BERTEmbedder.transformer self) tokens True \<and>
           BERTEmbedder_encode transformer_wrapper self (Strings text) = Inr z \<and>
           shape z = [length text, L, nat n_embed]"
proof -
  define tk where
    "tk = \<lparr> BERTTokenizer.tokenizer = tok, BERTTokenizer.device = ''cuda'',
             BERTTokenizer.vq_interface = False, BERTTokenizer.max_length = int L \<rparr>"
  define cfg where "cfg = TransformerWrapper vocab_size (int L) (Encoder n_embed n_layer) dropout"
  define self where
    "self = \<lparr> use_tknz_fn = True, tknz_fn = Some tk, BERTEmbedder.device = device',
               BERTEmbedder.transformer = cfg \<rparr>"
  have init: "BERTEmbedder_init from_pretrained n_embed n_layer vocab_size (int L) device' True
                dropout = Inr self"
    by (simp add: BERTEmbedder_init_def BERTTokenizer_init_def load self_def tk_def cfg_def)
  from BERTTokenizer_forward_padded [OF spec _ _ L nonempty, of tk]
  obtain toks where
    toks: "\<forall>s. length (toks s) = min L (ntokens s) \<and>
               (\<forall>t \<in> set (toks s). 0 \<le> t \<and> t < int vocab)"
    and fwd: "BERTTokenizer_forward tk text =
             Inr (Tensor [length text, L] (concat (map (\<lambda>s. padded_row pad L (toks s)) text))
                    ''cuda'')"
    by (auto simp: tk_def)
  define xs where "xs = concat (map (\<lambda>s. padded_row pad L (toks s)) text)"
  have enc: "BERTEmbedder_encode transformer_wrapper self (Strings text) =
               transformer_wrapper cfg (Tensor [length text, L] xs ''cuda'') True"
    by (simp add: BERTEmbedder_encode_def BERTEmbedder_forward_def self_def fwd xs_def)
  from spec have pad: "0 \<le> pad \<and> pad < int vocab"
    by (simp add: max_length_padding_spec_def)
  have range: "0 \<le> t \<and> t < num_tokens cfg" if "t \<in> set xs" for t
  proof -
    from that obtain s where "t \<in> set (padded_row pad L (toks s))"
      by (auto simp: xs_def)
    then have "t \<in> set (toks s) \<or> t = pad"
      by (rule padded_row_range)
    with toks pad have "0 \<le> t \<and> t < int vocab"
      by blast
    with vocab show ?thesis
      by (simp add: cfg_def)
  qed
  from wrapper have
    "int L \<le> max_seq_len cfg \<and> 0 \<le> dim (attn_layers cfg) \<and>
       (\<forall>t \<in> set xs. 0 \<le> t \<and> t < num_tokens cfg) \<longrightarrow>
     (\<exists>ys. transformer_wrapper cfg (Tensor [length text, L] xs ''cuda'') True =
            Inr (Tensor [length text, L, nat (dim (attn_layers cfg))] ys ''cuda''))"
    unfolding TransformerWrapper_spec_def by blast
  with range D obtain ys where
    "transformer_wrapper cfg (Tensor [length text, L] xs ''cuda'') True =
       Inr (Tensor [length text, L, nat n_embed] ys ''cuda'')"
    by (auto simp: cfg_def)
  with enc have out: "BERTEmbedder_encode transformer_wrapper self (Strings text) =
                   Inr (Tensor [length text, L, nat n_embed] ys ''cuda'')"
    by simp
  show ?thesis
  proof (intro exI conjI)
    show "BERTEmbedder_init from_pretrained n_embed n_layer vocab_size (int L) device' True
            dropout = Inr self"
      by (rule init)
    show "\<forall>s. length (toks s) = min L (ntokens s)"
      using toks by blast
    show "Tensor [length text, L] xs ''cuda'' =
          Tensor [length text, L] (concat (map (\<lambda>s. padded_row pad L (toks s)) text)) ''cuda''"
      by (simp add: xs_def)
    show "BERTEmbedder_encode transformer_wrapper self (Strings text) =
          transformer_wrapper (BERTEmbedder.transformer self) (Tensor [length text, L] xs ''cuda'') True"
      using enc by (simp add: self_def)
    show "BERTEmbedder_encode transformer_wrapper self (Strings text) =
          Inr (Tensor [length text, L, nat n_embed] ys ''cuda'')"
      by (rule out)
    show "shape (Tensor [length text, L, nat n_embed] ys ''cuda'') = [length text, L, nat n_embed]"
      by simp
  qed
qed

theorem BERTEmbedder_encode_shape_witness:
  "\<exists>self z.
     BERTEmbedder_init (\<lambda>name. Inr char_tokenizer) 4 1 30522 8 ''cpu'' True 0 = Inr self \<and>
     BERTEmbedder_encode table_wrapper self
       (Strings [''a cat'', ''a considerably longer sentence'']) = Inr z \<and>
     shape z = [2, 8, 4]"
proof -
  have load: "(\<lambda>name. Inr char_tokenizer) ''bert-base-uncased'' = Inr char_tokenizer"
    and L: "(2::nat) \<le> 8" and vocab: "int 256 \<le> 30522" and D: "(0::int) \<le> 4"
    and nonempty: "[''a cat'', ''a considerably longer sentence''] \<noteq> []"
    by simp_all
  from BERTEmbedder_encode_shape
    [where from_pretrained = "\<lambda>name. Inr char_tokenizer" and device' = "''cpu''"
       and n_layer = 1 and dropout = 0,
      OF char_tokenizer_spec table_wrapper_spec load L vocab D nonempty]
  obtain self z where
    "BERTEmbedder_init (\<lambda>name. Inr char_tokenizer) 4 1 30522 (int 8) ''cpu'' True 0 = Inr self"
    "BERTEmbedder_encode table_wrapper self
       (Strings [''a cat'', ''a considerably longer sentence'']) = Inr z"
    "shape z = [length [''a cat'', ''a considerably longer sentence''], 8, nat 4]"
    by blast
  then show ?thesis by auto
qed

subsection \<open>Facts about module state and freezing\<close>

lemma snd_in_snds: "snd nm \<in> Basic_BNFs.snds nm"
  by (cases nm) simp

lemma eval_mode_idem: "eval_mode (eval_mode m) = eval_mode m"
proof (induction m)
  case (Module t ps bs ms)
  then have "eval_mode (eval_mode (snd nm)) = eval_mode (snd nm)" if "nm \<in> set ms" for nm
    using that snd_in_snds by blast
  then have "map_prod id eval_mode (map_prod id eval_mode nm) = map_prod id eval_mode nm"
    if "nm \<in> set ms" for nm
    using that by (cases nm) auto
  then show ?case by simp
qed

lemma no_grad_parameters_idem: "no_grad_parameters (no_grad_parameters m) = no_grad_parameters m"
proof (induction m)
  case (Module t ps bs ms)
  then have "no_grad_parameters (no_grad_parameters (snd nm)) = no_grad_parameters (snd nm)"
    if "nm \<in> set ms" for nm
    using that snd_in_snds by blast
  then have "map_prod id no_grad_parameters (map_prod id no_grad_parameters nm) =
             map_prod id no_grad_parameters nm"
    if "nm \<in> set ms" for nm
    using that by (cases nm) auto
  moreover have "map_prod id (\<lambda>p. Parameter (param_data p) False)
                   (map_prod id (\<lambda>p. Parameter (param_data p) False) np) =
                 map_prod id (\<lambda>p. Parameter (param_data p) False) np" for np :: "string \<times> Parameter"
    by (cases np) simp
  ultimately show ?case by simp
qed

lemma eval_mode_no_grad_parameters:
  "eval_mode (no_grad_parameters m) = no_grad_parameters (eval_mode m)"
proof (induction m)
  case (Module t ps bs ms)
  then have "eval_mode (no_grad_parameters (snd nm)) = no_grad_parameters (eval_mode (snd nm))"
    if "nm \<in> set ms" for nm
    using that snd_in_snds by blast
  then have "map_prod id eval_mode (map_prod id no_grad_parameters nm) =
             map_prod id no_grad_parameters (map_prod id eval_mode nm)"
    if "nm \<in> set ms" for nm
    using that by (cases nm) auto
  then show ?case by simp
qed

lemma parameters_eval_mode: "parameters (eval_mode m) = parameters m"
proof (induction m)
  case (Module t ps bs ms)
  then have "parameters (eval_mode (snd nm)) = parameters (snd nm)" if "nm \<in> set ms" for nm
    using that snd_in_snds by blast
  then show ?case by (simp cong: map_cong)
qed

lemma parameters_no_grad_parameters:
  "parameters (no_grad_parameters m) = map (\<lambda>p. Parameter (param_data p) False) (parameters m)"
proof (induction m)
  case (Module t ps bs ms)
  then have "parameters (no_grad_parameters (snd nm)) =
             map (\<lambda>p. Parameter (param_data p) False) (parameters (snd nm))"
    if "nm \<in> set ms" for nm
    using that snd_in_snds by blast
  then show ?case by (simp add: comp_def map_concat cong: map_cong)
qed

lemma all_eval_eval_mode: "all_eval (eval_mode m)"
proof (induction m)
  case (Module t ps bs ms)
  then have "all_eval (eval_mode (snd nm))" if "nm \<in> set ms" for nm
    using that snd_in_snds by blast
  then show ?case by (simp add: list_all_iff)
qed

lemma all_eval_no_grad_parameters: "all_eval (no_grad_parameters m) = all_eval m"
proof (induction m)
  case (Module t ps bs ms)
  then have "all_eval (no_grad_parameters (snd nm)) = all_eval (snd nm)" if "nm \<in> set ms" for nm
    using that snd_in_snds by blast
  then show ?case by (simp add: list_all_iff)
qed

lemma frozen_parameters: "p \<in> set (parameters (no_grad_parameters m)) \<Longrightarrow> \<not> requires_grad p"
  by (auto simp: parameters_no_grad_parameters)


lemma freeze_module_idem:
  "no_grad_parameters (eval_mode (no_grad_parameters (eval_mode m))) =
   no_grad_parameters (eval_mode m)"
  by (simp add: eval_mode_no_grad_parameters eval_mode_idem no_grad_parameters_idem)

lemma freeze_module_frozen:
  "p \<in> set (parameters (no_grad_parameters (eval_mode m))) \<Longrightarrow> \<not> requires_grad p"
  by (rule frozen_parameters)

lemma freeze_module_eval: "all_eval (no_grad_parameters (eval_mode m))"
  by (simp add: all_eval_no_grad_parameters all_eval_eval_mode)

text \<open>
  C5. \<open>freeze\<close> is idempotent on each of the four classes that define it
  (\<open>FrozenCLIPEmbedder\<close>, \<open>FrozenT5Embedder\<close>, \<open>FrozenCLIPTextEmbedder\<close>,
  \<open>FrozenSDUNet\<close>): a second call returns the instance the first call left, every
  field included. After a call no parameter has \<open>requires_grad\<close> set and the wrapped
  model and all its submodules are in evaluation mode.
\<close>

theorem freeze_idempotent:
  "FrozenCLIPEmbedder_freeze (FrozenCLIPEmbedder_freeze a) = FrozenCLIPEmbedder_freeze a \<and>
   (\<forall>p \<in> set (parameters (FrozenCLIPEmbedder.transformer (FrozenCLIPEmbedder_freeze a))).
      \<not> requires_grad p) \<and>
   all_eval (FrozenCLIPEmbedder.transformer (FrozenCLIPEmbedder_freeze a)) \<and>
   FrozenT5Embedder_freeze (FrozenT5Embedder_freeze b) = FrozenT5Embedder_freeze b \<and>
   (\<forall>p \<in> set (parameters (FrozenT5Embedder.transformer (FrozenT5Embedder_freeze b))).
      \<not> requires_grad p) \<and>
   all_eval (FrozenT5Embedder.transformer (FrozenT5Embedder_freeze b)) \<and>
   FrozenCLIPTextEmbedder_freeze (FrozenCLIPTextEmbedder_freeze c) =
     FrozenCLIPTextEmbedder_freeze c \<and>
   (\<forall>p \<in> set (parameters (FrozenCLIPTextEmbedder.model (FrozenCLIPTextEmbedder_freeze c))).
      \<not> requires_grad p) \<and>
   all_eval (FrozenCLIPTextEmbedder.model (FrozenCLIPTextEmbedder_freeze c)) \<and>
   FrozenSDUNet_freeze (FrozenSDUNet_freeze d) = FrozenSDUNet_freeze d \<and>
   (\<forall>p \<in> set (parameters (FrozenSDUNet.model (FrozenSDUNet_freeze d))).
      \<not> requires_grad p) \<and>
   all_eval (FrozenSDUNet.model (FrozenSDUNet_freeze d))"
proof (intro conjI ballI)
  show "FrozenCLIPEmbedder_freeze (FrozenCLIPEmbedder_freeze a) = FrozenCLIPEmbedder_freeze a"
    by (simp add: FrozenCLIPEmbedder_freeze_def freeze_module_idem)
  show "FrozenT5Embedder_freeze (FrozenT5Embedder_freeze b) = FrozenT5Embedder_freeze b"
    by (simp add: FrozenT5Embedder_freeze_def freeze_module_idem)
  show "FrozenCLIPTextEmbedder_freeze (FrozenCLIPTextEmbedder_freeze c) =
        FrozenCLIPTextEmbedder_freeze c"
    by (simp add: FrozenCLIPTextEmbedder_freeze_def freeze_module_idem)
  show "FrozenSDUNet_freeze (FrozenSDUNet_freeze d) = FrozenSDUNet_freeze d"
    by (simp add: FrozenSDUNet_freeze_def freeze_module_idem)
  show "all_eval (FrozenCLIPEmbedder.transformer (FrozenCLIPEmbedder_freeze a))"
    by (simp add: FrozenCLIPEmbedder_freeze_def freeze_module_eval)
  show "all_eval (FrozenT5Embedder.transformer (FrozenT5Embedder_freeze b))"
    by (simp add: FrozenT5Embedder_freeze_def freeze_module_eval)
  show "all_eval (FrozenCLIPTextEmbedder.model (FrozenCLIPTextEmbedder_freeze c))"
    by (simp add: FrozenCLIPTextEmbedder_freeze_def freeze_module_eval)
  show "all_eval (FrozenSDUNet.model (FrozenSDUNet_freeze d))"
    by (simp add: FrozenSDUNet_freeze_def freeze_module_eval)
next
  fix p
  show "\<not> requires_grad p"
    if "p \<in> set (parameters (FrozenCLIPEmbedder.transformer (FrozenCLIPEmbedder_freeze a)))"
    using that by (simp add: FrozenCLIPEmbedder_freeze_def freeze_module_frozen)
  show "\<not> requires_grad p"
    if "p \<in> set (parameters (FrozenT5Embedder.transformer (FrozenT5Embedder_freeze b)))"
    using that by (simp add: FrozenT5Embedder_freeze_def freeze_module_frozen)
  show "\<not> requires_grad p"
    if "p \<in> set (parameters (FrozenCLIPTextEmbedder.model (FrozenCLIPTextEmbedder_freeze c)))"
    using that by (simp add: FrozenCLIPTextEmbedder_freeze_def freeze_module_frozen)
  show "\<not> requires_grad p"
    if "p \<in> set (parameters (FrozenSDUNet.model (FrozenSDUNet_freeze d)))"
    using that by (simp add: FrozenSDUNet_freeze_def freeze_module_frozen)
qed


theorem freeze_idempotent_witness:
  "FrozenCLIPEmbedder_freeze (FrozenCLIPEmbedder_freeze
      \<lparr> FrozenCLIPEmbedder.tokenizer = char_tokenizer,
        FrozenCLIPEmbedder.transformer = two_layer_module,
        FrozenCLIPEmbedder.device = ''cpu'', FrozenCLIPEmbedder.max_length = 77 \<rparr>) =
    FrozenCLIPEmbedder_freeze
      \<lparr> FrozenCLIPEmbedder.tokenizer = char_tokenizer,
        FrozenCLIPEmbedder.transformer = two_layer_module,
        FrozenCLIPEmbedder.device = ''cpu'', FrozenCLIPEmbedder.max_length = 77 \<rparr> \<and>
   map requires_grad (parameters (FrozenCLIPEmbedder.transformer (FrozenCLIPEmbedder_freeze
      \<lparr> FrozenCLIPEmbedder.tokenizer = char_tokenizer,
        FrozenCLIPEmbedder.transformer = two_layer_module,
        FrozenCLIPEmbedder.device = ''cpu'', FrozenCLIPEmbedder.max_length = 77 \<rparr>))) =
     [False, False, False] \<and>
   map requires_grad (parameters two_layer_module) = [True, True, False]"
proof -
  have "map requires_grad (parameters (FrozenCLIPEmbedder.transformer (FrozenCLIPEmbedder_freeze
      \<lparr> FrozenCLIPEmbedder.tokenizer = char_tokenizer,
        FrozenCLIPEmbedder.transformer = two_layer_module,
        FrozenCLIPEmbedder.device = ''cpu'', FrozenCLIPEmbedder.max_length = 77 \<rparr>))) =
     [False, False, False]"
    by (simp add: FrozenCLIPEmbedder_freeze_def two_layer_module_def)
  moreover have "map requires_grad (parameters two_layer_module) = [True, True, False]"
    by (simp add: two_layer_module_def)
  ultimately show ?thesis
    using freeze_idempotent
      [of "\<lparr> FrozenCLIPEmbedder.tokenizer = char_tokenizer,
             FrozenCLIPEmbedder.transformer = two_layer_module,
             FrozenCLIPEmbedder.device = ''cpu'', FrozenCLIPEmbedder.max_length = 77 \<rparr>"]
    by blast
qed

text \<open>
  C6. The constructor of \<open>FrozenCLIPTextEmbedder\<close> keeps the loaded model as
  \<open>clip.load\<close> returned it, so parameters that were trainable stay trainable; they lose
  \<open>requires_grad\<close> only when the caller runs \<open>freeze\<close>. The constructor of
  \<open>FrozenCLIPEmbedder\<close> returns an instance without any trainable parameter, whatever
  the loaded model was.
\<close>

theorem FrozenCLIPTextEmbedder_init_not_frozen:
  assumes clip: "clip_load version False ''cpu'' = Inr (m, pre)"
    and tok: "tokenizer_from_pretrained version' = Inr tk"
    and mdl: "model_from_pretrained version' = Inr tr"
  shows "(\<exists>self. FrozenCLIPTextEmbedder_init clip_load version device' max_length' n_repeat'
                   normalize' = Inr self \<and>
            FrozenCLIPTextEmbedder.model self = m \<and>
            ((\<forall>p \<in> set (parameters m). requires_grad p) \<longrightarrow>
             (\<forall>p \<in> set (parameters (FrozenCLIPTextEmbedder.model self)). requires_grad p)) \<and>
            (\<forall>p \<in> set (parameters (FrozenCLIPTextEmbedder.model
                                       (FrozenCLIPTextEmbedder_freeze self))).
               \<not> requires_grad p)) \<and>
         (\<exists>self. FrozenCLIPEmbedder_init tokenizer_from_pretrained model_from_pretrained version'
                   device'' max_length'' = Inr self \<and>
            (\<forall>p \<in> set (parameters (FrozenCLIPEmbedder.transformer self)). \<not> requires_grad p))"
proof (intro conjI)
  let ?self = "\<lparr> FrozenCLIPTextEmbedder.model = m, FrozenCLIPTextEmbedder.device = device',
                 FrozenCLIPTextEmbedder.max_length = max_length', n_repeat = n_repeat',
                 normalize = normalize' \<rparr>"
  have "FrozenCLIPTextEmbedder_init clip_load version device' max_length' n_repeat' normalize' =
          Inr ?self"
    by (simp add: FrozenCLIPTextEmbedder_init_def clip)
  moreover have "\<forall>p \<in> set (parameters (FrozenCLIPTextEmbedder.model
                                   (FrozenCLIPTextEmbedder_freeze ?self))). \<not> requires_grad p"
    by (simp add: FrozenCLIPTextEmbedder_freeze_def freeze_module_frozen)
  ultimately show "\<exists>self. FrozenCLIPTextEmbedder_init clip_load version device' max_length'
                   n_repeat' normalize' = Inr self \<and>
            FrozenCLIPTextEmbedder.model self = m \<and>
            ((\<forall>p \<in> set (parameters m). requires_grad p) \<longrightarrow>
             (\<forall>p \<in> set (parameters (FrozenCLIPTextEmbedder.model self)). requires_grad p)) \<and>
            (\<forall>p \<in> set (parameters (FrozenCLIPTextEmbedder.model
                                       (FrozenCLIPTextEmbedder_freeze self))).
               \<not> requires_grad p)"
    by (intro exI [of _ ?self]) simp
  let ?raw = "\<lparr> FrozenCLIPEmbedder.tokenizer = tk, FrozenCLIPEmbedder.transformer = tr,
                FrozenCLIPEmbedder.device = device'', FrozenCLIPEmbedder.max_length = max_length'' \<rparr>"
  have "FrozenCLIPEmbedder_init tokenizer_from_pretrained model_from_pretrained version'
          device'' max_length'' = Inr (FrozenCLIPEmbedder_freeze ?raw)"
    by (simp add: FrozenCLIPEmbedder_init_def tok mdl)
  moreover have "\<forall>p \<in> set (parameters (FrozenCLIPEmbedder.transformer
                                   (FrozenCLIPEmbedder_freeze ?raw))). \<not> requires_grad p"
    by (simp add: FrozenCLIPEmbedder_freeze_def freeze_module_frozen)
  ultimately show "\<exists>self. FrozenCLIPEmbedder_init tokenizer_from_pretrained model_from_pretrained
                   version' device'' max_length'' = Inr self \<and>
            (\<forall>p \<in> set (parameters (FrozenCLIPEmbedder.transformer self)). \<not> requires_grad p)"
    by blast
qed

theorem FrozenCLIPTextEmbedder_init_not_frozen_witness:
  "(\<exists>self. FrozenCLIPTextEmbedder_init (\<lambda>name jit dev. Inr (two_layer_module, ()))
              ''ViT-L/14'' ''cuda'' 77 1 True = Inr self \<and>
      map requires_grad (parameters (FrozenCLIPTextEmbedder.model self)) = [True, True, False] \<and>
      map requires_grad (parameters (FrozenCLIPTextEmbedder.model
                                       (FrozenCLIPTextEmbedder_freeze self))) =
        [False, False, False]) \<and>
   (\<exists>self. FrozenCLIPEmbedder_init (\<lambda>name. Inr char_tokenizer) (\<lambda>name. Inr two_layer_module)
              ''openai/clip-vit-large-patch14'' ''cuda'' 77 = Inr self \<and>
      map requires_grad (parameters (FrozenCLIPEmbedder.transformer self)) =
        [False, False, False])"
proof -
  have clip: "(\<lambda>name jit dev. Inr (two_layer_module, ())) ''ViT-L/14'' False ''cpu'' =
              Inr (two_layer_module, ())"
    and tok: "(\<lambda>name. Inr char_tokenizer) ''openai/clip-vit-large-patch14'' = Inr char_tokenizer"
    and mdl: "(\<lambda>name. Inr two_layer_module) ''openai/clip-vit-large-patch14'' =
              Inr two_layer_module"
    by simp_all
  note inst = FrozenCLIPTextEmbedder_init_not_frozen
    [where clip_load = "\<lambda>name jit dev. Inr (two_layer_module, ())"
       and tokenizer_from_pretrained = "\<lambda>name. Inr char_tokenizer"
       and model_from_pretrained = "\<lambda>name. Inr two_layer_module"
       and device' = "''cuda''" and max_length' = 77 and n_repeat' = 1 and normalize' = True
       and device'' = "''cuda''" and max_length'' = 77,
      OF clip tok mdl]
  from inst [THEN conjunct1] obtain s1 where
    "FrozenCLIPTextEmbedder_init (\<lambda>name jit dev. Inr (two_layer_module, ()))
           ''ViT-L/14'' ''cuda'' 77 1 True = Inr s1 \<and>
     FrozenCLIPTextEmbedder.model s1 = two_layer_module \<and>
     ((\<forall>p \<in> set (parameters two_layer_module). requires_grad p) \<longrightarrow>
      (\<forall>p \<in> set (parameters (FrozenCLIPTextEmbedder.model s1)). requires_grad p)) \<and>
     (\<forall>p \<in> set (parameters (FrozenCLIPTextEmbedder.model (FrozenCLIPTextEmbedder_freeze s1))).
        \<not> requires_grad p)" ..
  then have s1: "FrozenCLIPTextEmbedder_init (\<lambda>name jit dev. Inr (two_layer_module, ()))
           ''ViT-L/14'' ''cuda'' 77 1 True = Inr s1"
    and m1: "FrozenCLIPTextEmbedder.model s1 = two_layer_module"
    by simp_all
  from inst [THEN conjunct2] obtain s2 where
    "FrozenCLIPEmbedder_init (\<lambda>name. Inr char_tokenizer) (\<lambda>name. Inr two_layer_module)
       ''openai/clip-vit-large-patch14'' ''cuda'' 77 = Inr s2 \<and>
     (\<forall>p \<in> set (parameters (FrozenCLIPEmbedder.transformer s2)). \<not> requires_grad p)" ..
  then have s2: "FrozenCLIPEmbedder_init (\<lambda>name. Inr char_tokenizer) (\<lambda>name. Inr two_layer_module)
              ''openai/clip-vit-large-patch14'' ''cuda'' 77 = Inr s2"
    by simp
  have t2: "FrozenCLIPEmbedder.transformer s2 = no_grad_parameters (eval_mode two_layer_module)"
    using s2 by (auto simp: FrozenCLIPEmbedder_init_def FrozenCLIPEmbedder_freeze_def)
  have "map requires_grad (parameters (FrozenCLIPTextEmbedder.model s1)) = [True, True, False]"
    unfolding m1 by (simp add: two_layer_module_def)
  moreover have "map requires_grad (parameters (FrozenCLIPTextEmbedder.model
                    (FrozenCLIPTextEmbedder_freeze s1))) = [False, False, False]"
    by (simp add: FrozenCLIPTextEmbedder_freeze_def m1) (simp add: two_layer_module_def)
  moreover have "map requires_grad (parameters (FrozenCLIPEmbedder.transformer s2)) =
                   [False, False, False]"
    unfolding t2 by (simp add: two_layer_module_def)
  ultimately show ?thesis
    using s1 s2 by (intro conjI exI [of _ s1] exI [of _ s2])
qed

subsection \<open>Facts about FrozenT5Embedder\<close>

lemma char_row_unpadded:
  "\<not> truncation kw \<Longrightarrow> padding kw = DoNotPad \<Longrightarrow> char_row kw s = char_tokens s"
  by (simp add: char_row_def split: option.splits)

lemma char_tokenizer_unpadded: "unpadded_spec char_tokenizer (\<lambda>s. length s + 2)"
  unfolding unpadded_spec_def
proof (intro allI impI)
  fix batch :: "string list" and kw :: tokenizer_kwargs and l :: nat
  assume H: "\<not> truncation kw \<and> padding kw = DoNotPad \<and> return_tensors kw = Some ''pt'' \<and>
        batch \<noteq> [] \<and> (\<forall>s \<in> set batch. length s + 2 = l)"
  define rows where "rows = map (char_row kw) batch"
  have rows: "rows = map char_tokens batch"
    unfolding rows_def using H by (simp add: char_row_unpadded)
  have len: "length r = l" if "r \<in> set rows" for r
    using that H by (auto simp: rows char_tokens_def)
  from H have "rows \<noteq> []" by (simp add: rows_def)
  then have "hd rows \<in> set rows" by (rule hd_in_set)
  then have hd: "length (hd rows) = l" by (rule len)
  have same: "\<not> (\<exists>r \<in> set rows. length r \<noteq> length (hd rows))"
    using len hd by blast
  have "char_tokenizer batch kw =
          Inr [''input_ids'' \<mapsto> Tensor [length rows, length (hd rows)] (concat rows) ''cpu'']"
    unfolding char_tokenizer_def rows_def [symmetric] Let_def
    using H same by simp
  moreover have "length (concat rows) = length rows * l"
    using len by (rule length_concat_rows)
  ultimately show "\<exists>enc xs d. char_tokenizer batch kw = Inr enc \<and>
           enc ''input_ids'' = Some (Tensor [length batch, l] xs d) \<and>
           length xs = length batch * l"
    unfolding hd by (simp add: rows_def)
qed

lemma zero_text_model_spec: "hidden_states_spec (zero_text_model D) D"
  unfolding hidden_states_spec_def zero_text_model_def by simp

lemma FrozenT5Embedder_init_Inr:
  assumes "FrozenT5Embedder_init tfp mfp device' max_length' = Inr self"
  shows "\<exists>tk tr. tfp ''google/t5-v1_1-xl'' = Inr tk \<and> mfp ''google/t5-v1_1-xl'' = Inr tr \<and>
           self = \<lparr> FrozenT5Embedder.tokenizer = tk,
                    FrozenT5Embedder.transformer = no_grad_parameters (eval_mode tr),
                    FrozenT5Embedder.device = device',
                    FrozenT5Embedder.max_length = max_length' \<rparr>"
  using assms
  by (auto simp: FrozenT5Embedder_init_def FrozenT5Embedder_freeze_def split: sum.splits)

text \<open>
  C8. For a \<open>FrozenT5Embedder\<close> built by the constructor: no parameter is trainable
  (frozen at construction). The forward pass calls the text model only with gradient
  recording off, whatever the caller's mode, and leaves the caller's mode as it was. It
  never asks the tokenizer for truncation, padding or a maximal length, and the stored
  \<open>max_length\<close> has no influence on the result. With a tokenizer and an encoder that
  behave as documented, a non-empty batch of \<open>B\<close> strings with \<open>L\<close> tokens each gives
  hidden states of shape \<open>(B, L, D)\<close>: \<open>L\<close> follows the input and is not bounded by
  \<open>max_length\<close>.
\<close>

theorem FrozenT5Embedder_forward_unpadded:
  assumes init: "FrozenT5Embedder_init tokenizer_from_pretrained model_from_pretrained device'
                   max_length' = Inr self"
  shows "(\<forall>p \<in> set (parameters (FrozenT5Embedder.transformer self)). \<not> requires_grad p) \<and>
         FrozenT5Embedder_forward (grad_checked text_model) self g text =
           FrozenT5Embedder_forward text_model self g text \<and>
         snd (FrozenT5Embedder_forward text_model self g text) = g \<and>
         FrozenT5Embedder_forward text_model
             (self\<lparr> FrozenT5Embedder.tokenizer := unpadded_only (FrozenT5Embedder.tokenizer self) \<rparr>)
             g text =
           FrozenT5Embedder_forward text_model self g text \<and>
         FrozenT5Embedder_forward text_model (self\<lparr> FrozenT5Embedder.max_length := k \<rparr>) g text =
           FrozenT5Embedder_forward text_model self g text \<and>
         (unpadded_spec (FrozenT5Embedder.tokenizer self) ntokens \<and>
          hidden_states_spec text_model D \<and>
          text \<noteq> [] \<and> (\<forall>s \<in> set text. ntokens s = L) \<longrightarrow>
          (\<exists>z. FrozenT5Embedder_encode text_model self g text = (Inr z, g) \<and>
                shape z = [length text, L, D]))"
proof (intro conjI impI ballI)
  from FrozenT5Embedder_init_Inr [OF init] obtain tk tr where
    self: "self = \<lparr> FrozenT5Embedder.tokenizer = tk,
                    FrozenT5Embedder.transformer = no_grad_parameters (eval_mode tr),
                    FrozenT5Embedder.device = device',
                    FrozenT5Embedder.max_length = max_length' \<rparr>"
    by blast
  show "\<not> requires_grad p" if "p \<in> set (parameters (FrozenT5Embedder.transformer self))" for p
    using that unfolding self by (simp add: frozen_parameters)
  show "FrozenT5Embedder_forward (grad_checked text_model) self g text =
          FrozenT5Embedder_forward text_model self g text"
    by (simp add: FrozenT5Embedder_forward_def grad_checked_def cong: sum.case_cong)
  show "snd (FrozenT5Embedder_forward text_model self g text) = g"
    by (simp add: FrozenT5Embedder_forward_def)
  show "FrozenT5Embedder_forward text_model
             (self\<lparr> FrozenT5Embedder.tokenizer := unpadded_only (FrozenT5Embedder.tokenizer self) \<rparr>)
             g text =
           FrozenT5Embedder_forward text_model self g text"
    by (simp add: FrozenT5Embedder_forward_def unpadded_only_def tokenizer_defaults_def
        cong: sum.case_cong)
  show "FrozenT5Embedder_forward text_model (self\<lparr> FrozenT5Embedder.max_length := k \<rparr>) g text =
          FrozenT5Embedder_forward text_model self g text"
    by (simp add: FrozenT5Embedder_forward_def cong: sum.case_cong)
  show "\<exists>z. FrozenT5Embedder_encode text_model self g text = (Inr z, g) \<and>
             shape z = [length text, L, D]"
    if H: "unpadded_spec (FrozenT5Embedder.tokenizer self) ntokens \<and>
           hidden_states_spec text_model D \<and>
           text \<noteq> [] \<and> (\<forall>s \<in> set text. ntokens s = L)"
  proof -
    let ?kw = "tokenizer_defaults\<lparr> return_tensors := Some ''pt'' \<rparr>"
    from H have
      "\<not> truncation ?kw \<and> padding ?kw = DoNotPad \<and> return_tensors ?kw = Some ''pt'' \<and>
         text \<noteq> [] \<and> (\<forall>s \<in> set text. ntokens s = L) \<longrightarrow>
       (\<exists>enc xs d. FrozenT5Embedder.tokenizer self text ?kw = Inr enc \<and>
          enc ''input_ids'' = Some (Tensor [length text, L] xs d) \<and>
          length xs = length text * L)"
      unfolding unpadded_spec_def by blast
    with H obtain enc xs d where
      call: "FrozenT5Embedder.tokenizer self text ?kw = Inr enc"
      and ids: "enc ''input_ids'' = Some (Tensor [length text, L] xs d)"
      by (auto simp: tokenizer_defaults_def)
    from H obtain out ys where
      out: "text_model (FrozenT5Embedder.transformer self) False
              (Tensor [length text, L] xs (FrozenT5Embedder.device self)) = Inr out"
      and hs: "last_hidden_state out =
                 Tensor [length text, L, D] ys (FrozenT5Embedder.device self)"
      unfolding hidden_states_spec_def by blast
    show ?thesis
      using out hs
      by (simp add: FrozenT5Embedder_encode_def FrozenT5Embedder_forward_def call getitem_def
          ids to_def)
  qed
qed


theorem FrozenT5Embedder_forward_unpadded_witness:
  "\<exists>self z1 z2.
     FrozenT5Embedder_init (\<lambda>name. Inr char_tokenizer) (\<lambda>name. Inr two_layer_module)
       ''cpu'' 3 = Inr self \<and>
     FrozenT5Embedder_encode (zero_text_model 5) self True [''hi''] = (Inr z1, True) \<and>
     shape z1 = [1, 4, 5] \<and>
     FrozenT5Embedder_encode (zero_text_model 5) self True [''hello'', ''world''] =
       (Inr z2, True) \<and>
     shape z2 = [2, 7, 5]"
proof -
  obtain self where
    init: "FrozenT5Embedder_init (\<lambda>name. Inr char_tokenizer) (\<lambda>name. Inr two_layer_module)
             ''cpu'' 3 = Inr self"
    by (simp add: FrozenT5Embedder_init_def)
  then have tok: "FrozenT5Embedder.tokenizer self = char_tokenizer"
    by (auto simp: FrozenT5Embedder_init_def FrozenT5Embedder_freeze_def)
  have specs: "unpadded_spec (FrozenT5Embedder.tokenizer self) (\<lambda>s. length s + 2)"
    "hidden_states_spec (zero_text_model 5) 5"
    unfolding tok by (rule char_tokenizer_unpadded zero_text_model_spec)+
  note shape = FrozenT5Embedder_forward_unpadded
    [OF init, THEN conjunct2, THEN conjunct2, THEN conjunct2, THEN conjunct2, THEN conjunct2,
      rule_format, of "\<lambda>s. length s + 2" "zero_text_model 5" 5 _ _ True]
  have "\<exists>z. FrozenT5Embedder_encode (zero_text_model 5) self True [''hi''] = (Inr z, True) \<and>
            shape z = [length [''hi''], 4, 5]"
    by (rule shape) (intro conjI specs, simp_all)
  then obtain z1 where
    "FrozenT5Embedder_encode (zero_text_model 5) self True [''hi''] = (Inr z1, True) \<and>
     shape z1 = [length [''hi''], 4, 5]" ..
  moreover have "\<exists>z. FrozenT5Embedder_encode (zero_text_model 5) self True
                    [''hello'', ''world''] = (Inr z, True) \<and>
            shape z = [length [''hello'', ''world''], 7, 5]"
    by (rule shape) (intro conjI specs, simp_all)
  then obtain z2 where
    "FrozenT5Embedder_encode (zero_text_model 5) self True [''hello'', ''world''] =
       (Inr z2, True) \<and>
     shape z2 = [length [''hello'', ''world''], 7, 5]" ..
  ultimately show ?thesis
    using init by (intro exI [of _ self] exI [of _ z1] exI [of _ z2]) simp
qed

subsection \<open>Facts about FrozenClipImageEmbedder\<close>

lemma corner_resize_shape:
  assumes "shape x = [b, c, h, w]" "0 < h" "0 < w"
  shows "\<exists>ys. corner_resize x size' interpolation align_corners aa =
               Inr (Tensor [b, c, fst size', snd size'] ys (dev x))"
  using assms by (simp add: corner_resize_def)

lemma channel_normalize_shape:
  assumes "shape x = [b, c, h, w]" "shape mean = [c]" "shape std = [c]"
  shows "\<exists>ys. channel_normalize x mean std = Inr (Tensor [b, c, h, w] ys (dev x))"
  using assms by (simp add: channel_normalize_def)

lemma FrozenClipImageEmbedder_init_Inr:
  assumes "FrozenClipImageEmbedder_init clip_load cuda_is_available model' jit device' antialias' =
             Inr self"
  shows "\<exists>m. self =
           \<lparr> FrozenClipImageEmbedder.model = m,
             antialias = arg_or False antialias',
             buffers =
               [(''mean'', Buffer (Tensor [3] [0.48145466, 0.4578275, 0.40821073] ''cpu'') False),
                (''std'', Buffer (Tensor [3] [0.26862954, 0.26130258, 0.27577711] ''cpu'') False)] \<rparr>"
  using assms
  by (auto simp: FrozenClipImageEmbedder_init_def register_buffer_def torch_Tensor_def
      split: sum.splits)

text \<open>
  C7. For a \<open>FrozenClipImageEmbedder\<close> built by the constructor, \<open>preprocess\<close> is, in
  this order: the resize to \<open>224 \<times> 224\<close> with bicubic interpolation, aligned corners and
  the configured \<open>antialias\<close> (off when the caller gave none); the map \<open>x \<mapsto> (x + 1) / 2\<close>
  on every element, which takes \<open>[-1, 1]\<close> into \<open>[0, 1]\<close>; and the normalization with
  mean \<open>[0.48145466, 0.4578275, 0.40821073]\<close> and std \<open>[0.26862954, 0.26130258,
  0.27577711]\<close>. Both vectors are buffers registered with \<open>persistent=False\<close>, and
  neither name is a key of the module's \<open>state_dict\<close>.
\<close>

theorem FrozenClipImageEmbedder_preprocess_steps:
  assumes init: "FrozenClipImageEmbedder_init clip_load cuda_is_available model' jit device'
                   antialias' = Inr self"
  shows "antialias self = (case antialias' of None \<Rightarrow> False | Some a \<Rightarrow> a) \<and>
         FrozenClipImageEmbedder_preprocess resize kornia_normalize self x =
           (case resize x (224, 224) ''bicubic'' True (antialias self) of
              Inl e \<Rightarrow> Inl e
            | Inr y \<Rightarrow>
                kornia_normalize (Tensor (shape y) (map (\<lambda>v. (v + 1) / 2) (data y)) (dev y))
                  (Tensor [3] [0.48145466, 0.4578275, 0.40821073] ''cpu'')
                  (Tensor [3] [0.26862954, 0.26130258, 0.27577711] ''cpu'')) \<and>
         (\<forall>v :: real. - 1 \<le> v \<and> v \<le> 1 \<longrightarrow> 0 \<le> (v + 1) / 2 \<and> (v + 1) / 2 \<le> 1) \<and>
         buffers self =
           [(''mean'', Buffer (Tensor [3] [0.48145466, 0.4578275, 0.40821073] ''cpu'') False),
            (''std'', Buffer (Tensor [3] [0.26862954, 0.26130258, 0.27577711] ''cpu'') False)] \<and>
         ''mean'' \<notin> set (state_dict_keys (FrozenClipImageEmbedder_module self)) \<and>
         ''std'' \<notin> set (state_dict_keys (FrozenClipImageEmbedder_module self))"
proof -
  from FrozenClipImageEmbedder_init_Inr [OF init] obtain m where
    self: "self =
      \<lparr> FrozenClipImageEmbedder.model = m,
        antialias = arg_or False antialias',
        buffers =
          [(''mean'', Buffer (Tensor [3] [0.48145466, 0.4578275, 0.40821073] ''cpu'') False),
           (''std'', Buffer (Tensor [3] [0.26862954, 0.26130258, 0.27577711] ''cpu'') False)] \<rparr>"
    by blast
  have aa: "antialias self = (case antialias' of None \<Rightarrow> False | Some a \<Rightarrow> a)"
    by (simp add: self arg_or_def)
  have pre: "FrozenClipImageEmbedder_preprocess resize kornia_normalize self x =
             (case resize x (224, 224) ''bicubic'' True (antialias self) of
                Inl e \<Rightarrow> Inl e
              | Inr y \<Rightarrow>
                  kornia_normalize (Tensor (shape y) (map (\<lambda>v. (v + 1) / 2) (data y)) (dev y))
                    (Tensor [3] [0.48145466, 0.4578275, 0.40821073] ''cpu'')
                    (Tensor [3] [0.26862954, 0.26130258, 0.27577711] ''cpu''))"
    by (simp add: FrozenClipImageEmbedder_preprocess_def self buffer_attr_def
        add_scalar_def div_scalar_def comp_def cong: sum.case_cong)
  have range: "\<forall>v :: real. - 1 \<le> v \<and> v \<le> 1 \<longrightarrow> 0 \<le> (v + 1) / 2 \<and> (v + 1) / 2 \<le> 1"
    by simp
  have bufs: "buffers self =
             [(''mean'', Buffer (Tensor [3] [0.48145466, 0.4578275, 0.40821073] ''cpu'') False),
              (''std'', Buffer (Tensor [3] [0.26862954, 0.26130258, 0.27577711] ''cpu'') False)]"
    by (simp add: self)
  have keys: "state_dict_keys (FrozenClipImageEmbedder_module self) =
                map (\<lambda>k. ''model.'' @ k) (state_dict_keys m)"
    by (simp add: FrozenClipImageEmbedder_module_def self)
  have no_mean: "''mean'' \<notin> set (state_dict_keys (FrozenClipImageEmbedder_module self))"
    unfolding keys by auto
  have no_std: "''std'' \<notin> set (state_dict_keys (FrozenClipImageEmbedder_module self))"
    unfolding keys by auto
  from aa pre range bufs no_mean no_std show ?thesis
    by (intro conjI)
qed

theorem FrozenClipImageEmbedder_preprocess_steps_witness:
  "\<exists>self y.
     FrozenClipImageEmbedder_init (\<lambda>name jit dev. Inr (two_layer_module, ())) False
       ''ViT-L/14'' None None None = Inr self \<and>
     antialias self = False \<and>
     FrozenClipImageEmbedder_preprocess corner_resize channel_normalize self
       (Tensor [1, 3, 2, 2] [- 1, 0, 0, 0, 1, 0, 0, 0, 1 / 2, 0, 0, 0] ''cpu'') = Inr y \<and>
     shape y = [1, 3, 224, 224] \<and>
     state_dict_keys (FrozenClipImageEmbedder_module self) =
       [''model.weight'', ''model.layer.weight'', ''model.layer.bias'']"
proof -
  let ?x = "Tensor [1, 3, 2, 2] [- 1, 0, 0, 0, 1, 0, 0, 0, 1 / 2, 0, 0, 0 :: real] ''cpu''"
  obtain self where
    init: "FrozenClipImageEmbedder_init (\<lambda>name jit dev. Inr (two_layer_module, ())) False
             ''ViT-L/14'' None None None = Inr self"
    by (simp add: FrozenClipImageEmbedder_init_def)
  note steps = FrozenClipImageEmbedder_preprocess_steps
    [OF init, of corner_resize channel_normalize ?x]
  from steps have aa: "antialias self = False"
    by simp
  have "\<exists>ys. corner_resize ?x (224, 224) ''bicubic'' True False =
               Inr (Tensor [1, 3, fst (224 :: nat, 224 :: nat), snd (224 :: nat, 224 :: nat)] ys
                      (dev ?x))"
    by (rule corner_resize_shape [where h = 2 and w = 2]) simp_all
  then obtain ys where
    resized: "corner_resize ?x (224, 224) ''bicubic'' True False =
                Inr (Tensor [1, 3, 224, 224] ys ''cpu'')"
    by auto
  have "\<exists>zs. channel_normalize (Tensor [1, 3, 224, 224] (map (\<lambda>v. (v + 1) / 2) ys) ''cpu'')
               (Tensor [3] [0.48145466, 0.4578275, 0.40821073] ''cpu'')
               (Tensor [3] [0.26862954, 0.26130258, 0.27577711] ''cpu'') =
             Inr (Tensor [1, 3, 224, 224] zs
                    (dev (Tensor [1, 3, 224, 224] (map (\<lambda>v. (v + 1) / 2) ys) ''cpu'')))"
    by (rule channel_normalize_shape [where c = 3]) simp_all
  then obtain zs where
    "channel_normalize (Tensor [1, 3, 224, 224] (map (\<lambda>v. (v + 1) / 2) ys) ''cpu'')
       (Tensor [3] [0.48145466, 0.4578275, 0.40821073] ''cpu'')
       (Tensor [3] [0.26862954, 0.26130258, 0.27577711] ''cpu'') =
     Inr (Tensor [1, 3, 224, 224] zs ''cpu'')"
    by auto
  with steps aa resized have
    out: "FrozenClipImageEmbedder_preprocess corner_resize channel_normalize self ?x =
            Inr (Tensor [1, 3, 224, 224] zs ''cpu'')"
    by simp
  from FrozenClipImageEmbedder_init_Inr [OF init] have
    "FrozenClipImageEmbedder.model self = two_layer_module"
    using init by (auto simp: FrozenClipImageEmbedder_init_def)
  then have keys: "state_dict_keys (FrozenClipImageEmbedder_module self) =
       [''model.weight'', ''model.layer.weight'', ''model.layer.bias'']"
    using steps by (simp add: FrozenClipImageEmbedder_module_def two_layer_module_def)
  from init aa out keys show ?thesis
    by (intro exI [of _ self] exI [of _ "Tensor [1, 3, 224, 224] zs ''cpu''"]) simp
qed

subsection \<open>Facts about FrozenSDUNet\<close>

lemma counter_randint_spec: "randint_spec counter_randint"
  unfolding randint_spec_def
proof (intro allI impI)
  fix g :: nat and lo hi :: int and n :: nat and d :: string
  assume "lo < hi"
  then have pos: "0 < nat (hi - lo)" by simp
  have "lo \<le> lo + int (k mod nat (hi - lo)) \<and> lo + int (k mod nat (hi - lo)) < hi" for k
  proof -
    have "k mod nat (hi - lo) < nat (hi - lo)"
      using pos by (rule mod_less_divisor)
    then show ?thesis by linarith
  qed
  then show "\<exists>xs g'. counter_randint g lo hi [n] d = Inr (Tensor [n] xs d, g') \<and> length xs = n \<and>
                  (\<forall>x \<in> set xs. lo \<le> x \<and> x < hi)"
    using \<open>lo < hi\<close> by (auto simp: counter_randint_def)
qed

lemma single_value_range:
  fixes xs :: "int list"
  assumes "\<forall>x \<in> set xs. t \<le> x \<and> x < t + 1"
  shows "xs = replicate (length xs) t"
proof -
  from assms have "\<forall>x \<in> set xs. x = t" by auto
  then show ?thesis by (simp add: replicate_length_same)
qed

lemma FrozenSDUNet_forward_after_timestep:
  assumes "sample_timestep calls self g z timestep = Inr (t, g1)"
    and "randn_like calls g1 z = (noise, g2)"
  shows "FrozenSDUNet_encode calls self g z c timestep =
           (case q_sample calls (ema_scope calls (FrozenSDUNet.model self)) z t noise of
              Inl e \<Rightarrow> Inl e
            | Inr z_noisy \<Rightarrow>
                (case apply_model calls (ema_scope calls (FrozenSDUNet.model self)) z_noisy t c of
                   Inl e \<Rightarrow> Inl e
                 | Inr (z_recon, all_features) \<Rightarrow> Inr (all_features, g2)))"
  using assms by (simp add: FrozenSDUNet_encode_def FrozenSDUNet_forward_def Let_def)

text \<open>
  C2. \<open>encode\<close> on a latent \<open>z\<close> with batch size \<open>B\<close>. With an explicit \<open>timestep=t\<close>
  the timestep tensor handed to \<open>q_sample\<close> and \<open>apply_model\<close> holds \<open>t\<close> for every
  batch element: it is drawn by \<open>randint(t, t + 1, (B,))\<close>, which has no other value to
  return. With \<open>timestep=None\<close> and configured \<open>timesteps\<close> with
  \<open>timesteps[0] < timesteps[-1]\<close>, it is the result of \<open>randint(timesteps[0],
  timesteps[-1], (B,))\<close>, every element in \<open>[timesteps[0], timesteps[-1])\<close>; that
  \<open>randint\<close> draws uniformly is torch's part. In both cases the call returns the
  second component of \<open>apply_model\<close>'s result, the list of recorded features, and not
  the first, the prediction. With \<open>timesteps\<close> left at \<open>None\<close>, \<open>timestep=None\<close>
  raises \<open>TypeError\<close>.
\<close>

theorem FrozenSDUNet_encode_timestep:
  assumes ri: "randint_spec (randint calls)" and z: "shape z = b # rest"
  shows "(\<exists>g1 g2 noise.
            randint calls g t (t + 1) [b] (dev z) = Inr (Tensor [b] (replicate b t) (dev z), g1) \<and>
            randn_like calls g1 z = (noise, g2) \<and>
            FrozenSDUNet_encode calls self g z c (Some t) =
              (case q_sample calls (ema_scope calls (FrozenSDUNet.model self)) z
                      (Tensor [b] (replicate b t) (dev z)) noise of
                 Inl e \<Rightarrow> Inl e
               | Inr z_noisy \<Rightarrow>
                   (case apply_model calls (ema_scope calls (FrozenSDUNet.model self)) z_noisy
                           (Tensor [b] (replicate b t) (dev z)) c of
                      Inl e \<Rightarrow> Inl e
                    | Inr (z_recon, all_features) \<Rightarrow> Inr (all_features, g2)))) \<and>
         (timesteps self = Some ts \<and> ts \<noteq> [] \<and> hd ts < last ts \<longrightarrow>
          (\<exists>tt g1 g2 noise.
             randint calls g (hd ts) (last ts) [b] (dev z) = Inr (tt, g1) \<and>
             shape tt = [b] \<and> length (data tt) = b \<and>
             (\<forall>x \<in> set (data tt). hd ts \<le> x \<and> x < last ts) \<and>
             randn_like calls g1 z = (noise, g2) \<and>
             FrozenSDUNet_encode calls self g z c None =
               (case q_sample calls (ema_scope calls (FrozenSDUNet.model self)) z tt noise of
                  Inl e \<Rightarrow> Inl e
                | Inr z_noisy \<Rightarrow>
                    (case apply_model calls (ema_scope calls (FrozenSDUNet.model self)) z_noisy
                            tt c of
                       Inl e \<Rightarrow> Inl e
                     | Inr (z_recon, all_features) \<Rightarrow> Inr (all_features, g2))))) \<and>
         (timesteps self = None \<longrightarrow> FrozenSDUNet_encode calls self g z c None = Inl TypeError)"
proof (intro conjI impI)
  show "FrozenSDUNet_encode calls self g z c None = Inl TypeError" if "timesteps self = None"
    using that
    by (simp add: FrozenSDUNet_encode_def FrozenSDUNet_forward_def sample_timestep_def)
  have draw: "\<exists>xs g'. randint calls g lo hi [b] (dev z) = Inr (Tensor [b] xs (dev z), g') \<and>
                length xs = b \<and> (\<forall>x \<in> set xs. lo \<le> x \<and> x < hi)"
    if "lo < hi" for lo hi
    using ri that unfolding randint_spec_def by blast
  show "\<exists>g1 g2 noise.
            randint calls g t (t + 1) [b] (dev z) = Inr (Tensor [b] (replicate b t) (dev z), g1) \<and>
            randn_like calls g1 z = (noise, g2) \<and>
            FrozenSDUNet_encode calls self g z c (Some t) =
              (case q_sample calls (ema_scope calls (FrozenSDUNet.model self)) z
                      (Tensor [b] (replicate b t) (dev z)) noise of
                 Inl e \<Rightarrow> Inl e
               | Inr z_noisy \<Rightarrow>
                   (case apply_model calls (ema_scope calls (FrozenSDUNet.model self)) z_noisy
                           (Tensor [b] (replicate b t) (dev z)) c of
                      Inl e \<Rightarrow> Inl e
                    | Inr (z_recon, all_features) \<Rightarrow> Inr (all_features, g2)))"
  proof -
    from draw [of t "t + 1"] obtain xs g1 where
      call: "randint calls g t (t + 1) [b] (dev z) = Inr (Tensor [b] xs (dev z), g1)"
      and len: "length xs = b" and range: "\<forall>x \<in> set xs. t \<le> x \<and> x < t + 1"
      by auto
    from single_value_range [OF range] len have xs: "xs = replicate b t"
      by simp
    obtain noise g2 where noise: "randn_like calls g1 z = (noise, g2)"
      by (cases "randn_like calls g1 z")
    have "sample_timestep calls self g z (Some t) = Inr (Tensor [b] (replicate b t) (dev z), g1)"
      using call by (simp add: sample_timestep_def z xs)
    from FrozenSDUNet_forward_after_timestep [OF this noise] call noise show ?thesis
      unfolding xs by blast
  qed
  show "\<exists>tt g1 g2 noise.
             randint calls g (hd ts) (last ts) [b] (dev z) = Inr (tt, g1) \<and>
             shape tt = [b] \<and> length (data tt) = b \<and>
             (\<forall>x \<in> set (data tt). hd ts \<le> x \<and> x < last ts) \<and>
             randn_like calls g1 z = (noise, g2) \<and>
             FrozenSDUNet_encode calls self g z c None =
               (case q_sample calls (ema_scope calls (FrozenSDUNet.model self)) z tt noise of
                  Inl e \<Rightarrow> Inl e
                | Inr z_noisy \<Rightarrow>
                    (case apply_model calls (ema_scope calls (FrozenSDUNet.model self)) z_noisy
                            tt c of
                       Inl e \<Rightarrow> Inl e
                     | Inr (z_recon, all_features) \<Rightarrow> Inr (all_features, g2)))"
    if H: "timesteps self = Some ts \<and> ts \<noteq> [] \<and> hd ts < last ts"
  proof -
    from H draw [of "hd ts" "last ts"] obtain xs g1 where
      call: "randint calls g (hd ts) (last ts) [b] (dev z) = Inr (Tensor [b] xs (dev z), g1)"
      and len: "length xs = b" and range: "\<forall>x \<in> set xs. hd ts \<le> x \<and> x < last ts"
      by auto
    obtain noise g2 where noise: "randn_like calls g1 z = (noise, g2)"
      by (cases "randn_like calls g1 z")
    have "sample_timestep calls self g z None = randint calls g (hd ts) (last ts) [b] (dev z)"
      using H by (cases ts) (simp_all add: sample_timestep_def z)
    with call have "sample_timestep calls self g z None = Inr (Tensor [b] xs (dev z), g1)"
      by simp
    from FrozenSDUNet_forward_after_timestep [OF this noise] call noise len range show ?thesis
      by (intro exI [of _ "Tensor [b] xs (dev z)"] exI [of _ g1] exI [of _ g2] exI [of _ noise])
         simp
  qed
qed


theorem FrozenSDUNet_encode_timestep_witness:
  "(\<exists>feats g'.
      FrozenSDUNet_encode counter_calls
        \<lparr> config = (), ckpt_path = ''sd-v1-4-full-ema.ckpt'', timesteps = Some [0, 1000],
          FrozenSDUNet.model = two_layer_module \<rparr>
        5 (Tensor [2, 1] [1, 2] ''cpu'') () (Some 500) = Inr (feats, g') \<and>
      length feats = 2) \<and>
   (\<exists>g1. randint counter_calls 5 500 501 [2] ''cpu'' = Inr (Tensor [2] [500, 500] ''cpu'', g1)) \<and>
   (\<exists>feats g'.
      FrozenSDUNet_encode counter_calls
        \<lparr> config = (), ckpt_path = ''sd-v1-4-full-ema.ckpt'', timesteps = Some [0, 1000],
          FrozenSDUNet.model = two_layer_module \<rparr>
        5 (Tensor [2, 1] [1, 2] ''cpu'') () None = Inr (feats, g') \<and>
      length feats = 2)"
proof -
  let ?self = "\<lparr> config = (), ckpt_path = ''sd-v1-4-full-ema.ckpt'',
                 timesteps = Some [0, 1000], FrozenSDUNet.model = two_layer_module \<rparr>"
  let ?z = "Tensor [2, 1] [1, 2 :: real] ''cpu''"
  have spec: "randint_spec (randint counter_calls)"
    by (simp add: counter_calls_def counter_randint_spec)
  have z: "shape ?z = 2 # [1]"
    by simp
  have run: "\<exists>feats. (case q_sample counter_calls m ?z t noise of
                 Inl e \<Rightarrow> Inl e
               | Inr z_noisy \<Rightarrow>
                   (case apply_model counter_calls m z_noisy t () of
                      Inl e \<Rightarrow> Inl e
                    | Inr (z_recon, all_features) \<Rightarrow> Inr (all_features, g2))) = Inr (feats, g2) \<and>
               length feats = 2" for m t noise and g2 :: nat
    by (simp add: counter_calls_def)
  note steps = FrozenSDUNet_encode_timestep [OF spec z, of 5 _ ?self "()" "[0, 1000]"]
  from steps [of 500, THEN conjunct1] obtain g1 g2 noise where
    fixed: "randint counter_calls 5 500 (500 + 1) [2] (dev ?z) =
              Inr (Tensor [2] (replicate 2 500) (dev ?z), g1)"
    and enc1: "FrozenSDUNet_encode counter_calls ?self 5 ?z () (Some 500) =
              (case q_sample counter_calls (ema_scope counter_calls (FrozenSDUNet.model ?self)) ?z
                      (Tensor [2] (replicate 2 500) (dev ?z)) noise of
                 Inl e \<Rightarrow> Inl e
               | Inr z_noisy \<Rightarrow>
                   (case apply_model counter_calls
                           (ema_scope counter_calls (FrozenSDUNet.model ?self)) z_noisy
                           (Tensor [2] (replicate 2 500) (dev ?z)) () of
                      Inl e \<Rightarrow> Inl e
                    | Inr (z_recon, all_features) \<Rightarrow> Inr (all_features, g2)))"
    by blast
  have "timesteps ?self = Some [0, 1000] \<and> [0, 1000 :: int] \<noteq> [] \<and>
        hd [0, 1000 :: int] < last [0, 1000]"
    by simp
  with steps [of 0, THEN conjunct2, THEN conjunct1] obtain tt h2 noise' where
    enc2: "FrozenSDUNet_encode counter_calls ?self 5 ?z () None =
               (case q_sample counter_calls (ema_scope counter_calls (FrozenSDUNet.model ?self)) ?z
                       tt noise' of
                  Inl e \<Rightarrow> Inl e
                | Inr z_noisy \<Rightarrow>
                    (case apply_model counter_calls
                            (ema_scope counter_calls (FrozenSDUNet.model ?self)) z_noisy tt () of
                       Inl e \<Rightarrow> Inl e
                     | Inr (z_recon, all_features) \<Rightarrow> Inr (all_features, h2)))"
    by blast
  from run obtain f1 where "FrozenSDUNet_encode counter_calls ?self 5 ?z () (Some 500) =
      Inr (f1, g2) \<and> length f1 = 2"
    unfolding enc1 by blast
  moreover from run obtain f2 where "FrozenSDUNet_encode counter_calls ?self 5 ?z () None =
      Inr (f2, h2) \<and> length f2 = 2"
    unfolding enc2 by blast
  moreover from fixed have
    "randint counter_calls 5 500 501 [2] ''cpu'' = Inr (Tensor [2] [500, 500] ''cpu'', g1)"
    by (simp add: numeral_2_eq_2)
  ultimately show ?thesis
    by blast
qed

subsection \<open>Facts about FrozenCLIPTextEmbedder\<close>

lemma chunks_Nil [simp]: "chunks d [] = []"
  by (simp add: chunks.simps)

lemma chunks_append_row:
  "0 < d \<Longrightarrow> length r = d \<Longrightarrow> chunks d (r @ xs) = r # chunks d xs"
  by (subst chunks.simps) auto

lemma chunks_concat:
  "0 < d \<Longrightarrow> (\<And>r. r \<in> set rows \<Longrightarrow> length r = d) \<Longrightarrow> chunks d (concat rows) = rows"
  by (induction rows) (simp_all add: chunks_append_row)

lemma chunks_rows:
  "0 < d \<Longrightarrow> length xs = b * d \<Longrightarrow>
     length (chunks d xs) = b \<and> (\<forall>r \<in> set (chunks d xs). length r = d)"
proof (induction b arbitrary: xs)
  case 0
  then show ?case by simp
next
  case (Suc b)
  then have "xs = take d xs @ drop d xs" and "length (take d xs) = d"
    and "length (drop d xs) = b * d"
    by simp_all
  with Suc.IH [of "drop d xs"] Suc.prems(1) show ?case
    by (metis chunks_append_row length_Cons set_ConsD)
qed

lemma sum_list_squares_divide:
  fixes n :: real
  shows "(\<Sum>v\<leftarrow>map (\<lambda>v. v / n) row. v\<^sup>2) = (\<Sum>v\<leftarrow>row. v\<^sup>2) / n\<^sup>2"
  by (induction row) (simp_all add: power_divide add_divide_distrib)

lemma l2norm_nonneg: "0 \<le> l2norm row"
  by (auto simp: l2norm_def intro!: sum_list_nonneg)

lemma l2norm_normalized:
  assumes "l2norm row \<noteq> 0"
  shows "l2norm (map (\<lambda>v. v / l2norm row) row) = 1"
proof -
  have "l2norm (map (\<lambda>v. v / l2norm row) row) = sqrt ((\<Sum>v\<leftarrow>row. v\<^sup>2) / (l2norm row)\<^sup>2)"
    by (simp only: l2norm_def [of "map _ _"] sum_list_squares_divide)
  also have "\<dots> = sqrt (\<Sum>v\<leftarrow>row. v\<^sup>2) / \<bar>l2norm row\<bar>"
    by (simp add: real_sqrt_divide)
  also have "\<dots> = l2norm row / l2norm row"
    using l2norm_nonneg [of row] by (simp add: l2norm_def)
  finally show ?thesis using assms by simp
qed


lemma zip_with_map:
  "map (\<lambda>(row, n). g row n) (zip rows (map f rows)) = map (\<lambda>row. g row (f row)) rows"
  by (induction rows) simp_all

lemma FrozenCLIPTextEmbedder_forward_pooled:
  assumes tok: "clip_tokenize text = Inr (Tensor [B, l] ts dv)"
    and enc: "encode_text (FrozenCLIPTextEmbedder.model self)
                (Tensor [B, l] ts (FrozenCLIPTextEmbedder.device self)) =
              Inr (Tensor [B, D] xs dv')"
    and len: "length xs = B * D" and D: "0 < D"
    and nrm: "linalg_norm_spec linalg_norm" and dvd: "true_divide_spec true_divide"
    and nz: "normalize self \<longrightarrow> (\<forall>row \<in> set (chunks D xs). l2norm row \<noteq> 0)"
  shows "FrozenCLIPTextEmbedder_forward clip_tokenize encode_text linalg_norm true_divide self text =
           Inr (Tensor [B, D]
                  (if normalize self
                   then concat (map (\<lambda>row. map (\<lambda>v. v / l2norm row) row) (chunks D xs))
                   else xs) dv')"
proof (cases "normalize self")
  case False
  then show ?thesis
    by (simp add: FrozenCLIPTextEmbedder_forward_def tok to_def enc)
next
  case True
  let ?ns = "map l2norm (chunks D xs)"
  from nrm have norm: "linalg_norm (Tensor [B, D] xs dv') 1 True = Inr (Tensor [B, 1] ?ns dv')"
    unfolding linalg_norm_spec_def by blast
  from nz True have "0 \<notin> set ?ns"
    by auto
  moreover have "length ?ns = length (chunks D xs)"
    by simp
  ultimately have
    "true_divide (Tensor [B, D] xs dv') (Tensor [B, 1] ?ns dv') =
       Inr (Tensor [B, D]
              (concat (map (\<lambda>(row, n). map (\<lambda>v. v / n) row) (zip (chunks D xs) ?ns))) dv')"
    using dvd unfolding true_divide_spec_def by blast
  then have "true_divide (Tensor [B, D] xs dv') (Tensor [B, 1] ?ns dv') =
       Inr (Tensor [B, D]
              (concat (map (\<lambda>row. map (\<lambda>v. v / l2norm row) row) (chunks D xs))) dv')"
    by (simp only: zip_with_map)
  with True norm show ?thesis
    by (simp add: FrozenCLIPTextEmbedder_forward_def tok to_def enc)
qed

text \<open>
  C3. For a batch of \<open>B\<close> strings that \<open>clip.tokenize\<close> accepts, with pooled text
  embeddings of shape \<open>(B, D)\<close> from \<open>encode_text\<close> and a positive \<open>n_repeat\<close>,
  \<open>encode\<close> returns a tensor of shape \<open>(B, n_repeat, D)\<close> whose data repeat each pooled
  row \<open>n_repeat\<close> times along the new middle axis. With \<open>normalize=True\<close> every pooled
  row (before the replication) has Euclidean norm \<open>1\<close>, provided the text tower returned
  no zero row; without normalization the pooled rows are the text tower's output.
  Elements are real numbers: the norm is exactly \<open>1\<close> here, and \<open>1\<close> up to rounding
  in floating-point arithmetic.
\<close>

theorem FrozenCLIPTextEmbedder_encode_repeat:
  assumes tok: "clip_tokenize text = Inr (Tensor [length text, l] ts dv)"
    and enc: "encode_text (FrozenCLIPTextEmbedder.model self)
                (Tensor [length text, l] ts (FrozenCLIPTextEmbedder.device self)) =
              Inr (Tensor [length text, D] xs dv')"
    and len: "length xs = length text * D" and D: "0 < D"
    and nrm: "linalg_norm_spec linalg_norm" and dvd: "true_divide_spec true_divide"
    and rep: "repeat_spec repeat"
    and k: "0 < n_repeat self"
    and nz: "normalize self \<longrightarrow> (\<forall>row \<in> set (chunks D xs). l2norm row \<noteq> 0)"
  shows "\<exists>pooled z.
           FrozenCLIPTextEmbedder_forward clip_tokenize encode_text linalg_norm true_divide self
             text = Inr pooled \<and>
           shape pooled = [length text, D] \<and>
           length (chunks D (data pooled)) = length text \<and>
           (normalize self \<longrightarrow> (\<forall>row \<in> set (chunks D (data pooled)). l2norm row = 1)) \<and>
           (\<not> normalize self \<longrightarrow> data pooled = xs) \<and>
           FrozenCLIPTextEmbedder_encode clip_tokenize encode_text linalg_norm true_divide repeat
             self text = Inr z \<and>
           shape z = [length text, nat (n_repeat self), D] \<and>
           data z = concat (map (\<lambda>row. concat (replicate (nat (n_repeat self)) row))
                              (chunks D (data pooled)))"
proof -
  define ys where
    "ys = (if normalize self
           then concat (map (\<lambda>row. map (\<lambda>v. v / l2norm row) row) (chunks D xs))
           else xs)"
  define pooled where "pooled = Tensor [length text, D] ys dv'"
  define z where
    "z = Tensor [length text, nat (n_repeat self), D]
           (concat (map (\<lambda>row. concat (replicate (nat (n_repeat self)) row)) (chunks D ys))) dv'"
  from chunks_rows [OF D len] have
    rows: "length (chunks D xs) = length text" "\<And>r. r \<in> set (chunks D xs) \<Longrightarrow> length r = D"
    by simp_all
  have fwd: "FrozenCLIPTextEmbedder_forward clip_tokenize encode_text linalg_norm true_divide self
               text = Inr pooled"
    unfolding pooled_def ys_def
    using tok enc len D nrm dvd nz by (rule FrozenCLIPTextEmbedder_forward_pooled)
  have normalized: "chunks D ys = map (\<lambda>row. map (\<lambda>v. v / l2norm row) row) (chunks D xs)"
    if "normalize self"
  proof -
    have "chunks D (concat (map (\<lambda>row. map (\<lambda>v. v / l2norm row) row) (chunks D xs))) =
          map (\<lambda>row. map (\<lambda>v. v / l2norm row) row) (chunks D xs)"
      using D by (rule chunks_concat) (auto simp: rows(2))
    with that show ?thesis by (simp add: ys_def)
  qed
  have count: "length (chunks D ys) = length text"
    using normalized rows(1) by (cases "normalize self") (simp_all add: ys_def)
  have unit: "l2norm row = 1" if "normalize self" "row \<in> set (chunks D ys)" for row
  proof -
    from that normalized obtain r where
      "r \<in> set (chunks D xs)" "row = map (\<lambda>v. v / l2norm r) r"
      by auto
    with nz that(1) show ?thesis
      by (simp add: l2norm_normalized)
  qed
  from rep k have
    "repeat (Tensor [length text, 1, D] ys dv') ''b 1 d -> b k d'' (n_repeat self) = Inr z"
    unfolding repeat_spec_def z_def by blast
  then have enc_z: "FrozenCLIPTextEmbedder_encode clip_tokenize encode_text linalg_norm true_divide
                      repeat self text = Inr z"
    by (simp add: FrozenCLIPTextEmbedder_encode_def fwd pooled_def ndim_def index_none_middle_def)
  show ?thesis
  proof (intro exI conjI impI ballI)
    show "FrozenCLIPTextEmbedder_forward clip_tokenize encode_text linalg_norm true_divide self
            text = Inr pooled"
      by (rule fwd)
    show "shape pooled = [length text, D]"
      by (simp add: pooled_def)
    show "length (chunks D (data pooled)) = length text"
      using count by (simp add: pooled_def)
    show "l2norm row = 1" if "normalize self" "row \<in> set (chunks D (data pooled))" for row
      using that unit by (simp add: pooled_def)
    show "data pooled = xs" if "\<not> normalize self"
      using that by (simp add: pooled_def ys_def)
    show "FrozenCLIPTextEmbedder_encode clip_tokenize encode_text linalg_norm true_divide repeat
            self text = Inr z"
      by (rule enc_z)
    show "shape z = [length text, nat (n_repeat self), D]"
      by (simp add: z_def)
    show "data z = concat (map (\<lambda>row. concat (replicate (nat (n_repeat self)) row))
                             (chunks D (data pooled)))"
      by (simp add: z_def pooled_def)
  qed
qed


lemma rows_linalg_norm_spec: "linalg_norm_spec rows_linalg_norm"
  unfolding linalg_norm_spec_def rows_linalg_norm_def by simp

lemma rows_divide_spec: "true_divide_spec rows_divide"
  unfolding true_divide_spec_def rows_divide_def by simp

lemma rows_repeat_spec: "repeat_spec rows_repeat"
  unfolding repeat_spec_def rows_repeat_def by simp

theorem FrozenCLIPTextEmbedder_encode_repeat_witness:
  "\<exists>pooled z.
     FrozenCLIPTextEmbedder_forward short_clip_tokenize first_two_encode_text rows_linalg_norm
       rows_divide
       \<lparr> FrozenCLIPTextEmbedder.model = two_layer_module,
         FrozenCLIPTextEmbedder.device = ''cpu'', FrozenCLIPTextEmbedder.max_length = 77,
         n_repeat = 3, normalize = True \<rparr>
       [''ab''] = Inr pooled \<and>
     shape pooled = [1, 2] \<and>
     list_all (\<lambda>row. l2norm row = 1) (chunks 2 (data pooled)) \<and>
     FrozenCLIPTextEmbedder_encode short_clip_tokenize first_two_encode_text rows_linalg_norm
       rows_divide rows_repeat
       \<lparr> FrozenCLIPTextEmbedder.model = two_layer_module,
         FrozenCLIPTextEmbedder.device = ''cpu'', FrozenCLIPTextEmbedder.max_length = 77,
         n_repeat = 3, normalize = True \<rparr>
       [''ab''] = Inr z \<and>
     shape z = [1, 3, 2]"
proof -
  let ?self = "\<lparr> FrozenCLIPTextEmbedder.model = two_layer_module,
                 FrozenCLIPTextEmbedder.device = ''cpu'', FrozenCLIPTextEmbedder.max_length = 77,
                 n_repeat = 3, normalize = True \<rparr>"
  have tok: "short_clip_tokenize [''ab''] = Inr (Tensor [length [''ab''], 4] [97, 98, 0, 0] ''cpu'')"
    by (simp add: short_clip_tokenize_def padded_row_def numeral_2_eq_2)
  have enc: "first_two_encode_text (FrozenCLIPTextEmbedder.model ?self)
               (Tensor [length [''ab''], 4] [97, 98, 0, 0] (FrozenCLIPTextEmbedder.device ?self)) =
             Inr (Tensor [length [''ab''], 2] [98, 99] ''cpu'')"
    by (simp add: first_two_encode_text_def)
  have len: "length [98, 99 :: real] = length [''ab''] * 2" and D: "(0 :: nat) < 2"
    and k: "0 < n_repeat ?self"
    by simp_all
  have rows: "chunks 2 [98, 99 :: real] = [[98, 99]]"
    by (simp add: chunks.simps)
  have nz: "normalize ?self \<longrightarrow> (\<forall>row \<in> set (chunks 2 [98, 99 :: real]). l2norm row \<noteq> 0)"
    unfolding rows by (simp add: l2norm_def)
  from FrozenCLIPTextEmbedder_encode_repeat
    [where clip_tokenize = short_clip_tokenize and encode_text = first_two_encode_text
       and linalg_norm = rows_linalg_norm and true_divide = rows_divide
       and repeat = rows_repeat and self = ?self and ?text = "[''ab'']" and D = 2
       and xs = "[98, 99]",
      OF tok enc len D rows_linalg_norm_spec rows_divide_spec rows_repeat_spec k nz]
  obtain pooled z where
    "FrozenCLIPTextEmbedder_forward short_clip_tokenize first_two_encode_text rows_linalg_norm
       rows_divide ?self [''ab''] = Inr pooled"
    "shape pooled = [length [''ab''], 2]"
    "normalize ?self \<longrightarrow> (\<forall>row \<in> set (chunks 2 (data pooled)). l2norm row = 1)"
    "FrozenCLIPTextEmbedder_encode short_clip_tokenize first_two_encode_text rows_linalg_norm
       rows_divide rows_repeat ?self [''ab''] = Inr z"
    "shape z = [length [''ab''], nat (n_repeat ?self), 2]"
    by blast
  then show ?thesis
    by (intro exI [of _ pooled] exI [of _ z]) (simp add: list_all_iff)
qed

end
